theory Spec2Isabelle
  imports Main
begin

section \<open>Data model (src/src/types/metadata.ts)\<close>

text \<open>
  Strings are lists of 8-bit characters. A JavaScript \<open>Date\<close> is kept as its time value
  (milliseconds since the epoch). An optional field (\<open>fileName?: string\<close>) is an
  \<open>option\<close>; \<open>undefined\<close> is \<open>None\<close>.
\<close>

type_synonym date = int

datatype MetadataStatus = LocalOnly | RemoteOnly | Synced | Conflict

record MetadataComponent =
  id' :: string
  type' :: string
  fullName :: string
  fileName :: "string option"
  lastModifiedDate :: "date option"
  lastModifiedBy :: "string option"
  packageName :: "string option"
  isThirdParty :: "bool option"
  status :: MetadataStatus

record MetadataComparison =
  localOnly :: "MetadataComponent list"
  remoteOnly :: "MetadataComponent list"
  synced :: "MetadataComponent list"
  conflicts :: "MetadataComponent list"

section \<open>MetadataService.compareMetadata (src/src/services/MetadataService.ts)\<close>

text \<open>
  \<open>compareMetadata\<close> awaits \<open>listRemoteComponents(type)\<close> and \<open>listLocalComponents(type)\<close>
  (both catch every fault and return a list) and then runs three loops over the two
  lists. The model takes the two lists as they were returned. Each \<open>for ... push\<close> loop is
  a recursion that carries the bucket built so far.
\<close>

fun localOnlyLoop :: "string set \<Rightarrow> MetadataComponent list \<Rightarrow> MetadataComponent list \<Rightarrow> MetadataComponent list" where
  "localOnlyLoop remoteNames [] bucket = bucket"
| "localOnlyLoop remoteNames (component # rest) bucket =
     localOnlyLoop remoteNames rest
       (if fullName component \<notin> remoteNames
        then bucket @ [component\<lparr>status := LocalOnly\<rparr>] else bucket)"

fun remoteOnlyLoop :: "string set \<Rightarrow> MetadataComponent list \<Rightarrow> MetadataComponent list \<Rightarrow> MetadataComponent list" where
  "remoteOnlyLoop localNames [] bucket = bucket"
| "remoteOnlyLoop localNames (component # rest) bucket =
     remoteOnlyLoop localNames rest
       (if fullName component \<notin> localNames
        then bucket @ [component\<lparr>status := RemoteOnly\<rparr>] else bucket)"

text \<open>
  \<open>remoteComponents.find(...)\<close> is \<open>find\<close>; \<open>remoteComponent?.lastModifiedDate\<close> is
  \<open>undefined\<close> when nothing was found or when the remote component has no date.
\<close>

definition toSynced :: "MetadataComponent list \<Rightarrow> MetadataComponent \<Rightarrow> MetadataComponent" where
  "toSynced remoteComponents component =
     (let remoteComponent = find (\<lambda>remote. fullName remote = fullName component) remoteComponents
      in component\<lparr>status := Synced,
           lastModifiedDate := Option.bind remoteComponent lastModifiedDate,
           lastModifiedBy := Option.bind remoteComponent lastModifiedBy\<rparr>)"

fun syncedLoop :: "string set \<Rightarrow> MetadataComponent list \<Rightarrow> MetadataComponent list \<Rightarrow> MetadataComponent list \<Rightarrow> MetadataComponent list" where
  "syncedLoop remoteNames remoteComponents [] bucket = bucket"
| "syncedLoop remoteNames remoteComponents (component # rest) bucket =
     syncedLoop remoteNames remoteComponents rest
       (if fullName component \<in> remoteNames
        then bucket @ [toSynced remoteComponents component] else bucket)"

definition compareMetadata :: "MetadataComponent list \<Rightarrow> MetadataComponent list \<Rightarrow> MetadataComparison" where
  "compareMetadata remoteComponents localComponents =
     (let remoteNames = set (map fullName remoteComponents);
          localNames = set (map fullName localComponents)
      in \<lparr>localOnly = localOnlyLoop remoteNames localComponents [],
          remoteOnly = remoteOnlyLoop localNames remoteComponents [],
          synced = syncedLoop remoteNames remoteComponents localComponents [],
          conflicts = []\<rparr>)"

text \<open>The set of fullNames occurring in a component list.\<close>

definition names :: "MetadataComponent list \<Rightarrow> string set" where
  "names cs = set (map fullName cs)"

section \<open>Selection model: useSelection (second unit of src/src/hooks/useMetadata.ts)\<close>

text \<open>
  The hook's state is \<open>selectedIds\<close>, a \<open>Set<string>\<close>. Each operation hands React a
  state updater \<open>prev \<Rightarrow> next\<close>; the model is that updater. \<open>new Set(prev)\<close> copies the
  set, \<open>next.delete(id)\<close> is \<open>Set.remove\<close> and \<open>next.add(id)\<close> is \<open>insert\<close>.
\<close>

definition toggle :: "string \<Rightarrow> string set \<Rightarrow> string set" where
  "toggle i prev =
     (let next = prev
      in if i \<in> next then Set.remove i next else insert i next)"

definition toggleMultiple :: "string list \<Rightarrow> string set \<Rightarrow> string set" where
  "toggleMultiple ids prev =
     (let next = prev;
          allSelected = list_all (\<lambda>i. i \<in> next) ids
      in if allSelected then fold Set.remove ids next else fold insert ids next)"

definition selectAll :: "MetadataComponent list \<Rightarrow> string set \<Rightarrow> string set" where
  "selectAll components prev = set (map id' components)"

definition deselectAll :: "string set \<Rightarrow> string set" where
  "deselectAll prev = {}"

definition isSelected :: "string set \<Rightarrow> string \<Rightarrow> bool" where
  "isSelected selectedIds i = (i \<in> selectedIds)"

definition selectedComponents :: "MetadataComponent list \<Rightarrow> string set \<Rightarrow> MetadataComponent list" where
  "selectedComponents allComponents selectedIds =
     filter (\<lambda>component. id' component \<in> selectedIds) allComponents"

definition count :: "MetadataComponent list \<Rightarrow> string set \<Rightarrow> nat" where
  "count allComponents selectedIds = length (selectedComponents allComponents selectedIds)"

text \<open>A run of single toggles, one state update after the other.\<close>

definition toggles :: "string list \<Rightarrow> string set \<Rightarrow> string set" where
  "toggles js s = fold toggle js s"

section \<open>Cache staleness (src/src/components/App.tsx, useSyncState in src/unnamed/part_006)\<close>

record OrgInfo =
  username :: string
  alias' :: "string option"
  orgId :: string
  instanceUrl :: string
  isDefault :: bool
  isScratch :: bool
  isDevHub :: bool

record LastSync =
  orgUsername :: string
  timestamp :: string
  metadataTypes :: "string list"

record CachedMetadata =
  lastFetched :: date
  components' :: "MetadataComponent list"

text \<open>
  The persisted state (src/src/services/SyncStateService.ts). The \<open>ui\<close> preferences of the blob play no part
  in staleness and are left out; \<open>lastSync\<close> is \<open>null\<close> until the first sync.
\<close>

record SyncState =
  lastSync :: "LastSync option"
  cache :: "string \<rightharpoonup> CachedMetadata"
  subscriptions :: "(string \<rightharpoonup> string list) option"

text \<open>
  \<open>state?.lastSync?.orgUsername ?? null\<close>, where \<open>state\<close> is \<open>null\<close> until the blob is
  loaded.
\<close>

definition lastSyncOrg :: "SyncState option \<Rightarrow> string option" where
  "lastSyncOrg state =
     (case state of None \<Rightarrow> None
      | Some s \<Rightarrow> (case lastSync s of None \<Rightarrow> None | Some r \<Rightarrow> Some (orgUsername r)))"

text \<open>
  JavaScript truthiness of a \<open>string | null\<close> value: \<open>null\<close> and the empty string are
  falsy, every other string is truthy.
\<close>

definition truthy :: "string option \<Rightarrow> bool" where
  "truthy v = (case v of None \<Rightarrow> False | Some s \<Rightarrow> s \<noteq> [])"

text \<open>
  \<open>Boolean(currentOrg && lastSyncOrg && currentOrg.username !== lastSyncOrg)\<close>: an
  \<open>OrgInfo\<close> object is always truthy, \<open>null\<close> never.
\<close>

definition isCacheStale :: "OrgInfo option \<Rightarrow> string option \<Rightarrow> bool" where
  "isCacheStale currentOrg lastSyncOrg' =
     (case currentOrg of None \<Rightarrow> False
      | Some org \<Rightarrow>
          if \<not> truthy lastSyncOrg' then False
          else Some (username org) \<noteq> lastSyncOrg')"

datatype CacheStatus = Fresh | Stale | Empty

definition cacheStatus :: "OrgInfo option \<Rightarrow> string option \<Rightarrow> CacheStatus" where
  "cacheStatus currentOrg lastSyncOrg' =
     (if isCacheStale currentOrg lastSyncOrg' then Stale
      else if truthy lastSyncOrg' then Fresh else Empty)"

section \<open>JavaScript string operations used by the services\<close>

text \<open>
  A character stands for one UTF-16 code unit below 256. \<open>String.prototype.trim\<close> strips
  white space and line terminators; below 256 these are TAB, LF, VT, FF, CR, SP and NBSP.
\<close>

definition isWhiteSpace :: "char \<Rightarrow> bool" where
  "isWhiteSpace c = (of_char c \<in> {9, 10, 11, 12, 13, 32, 160 :: nat})"

definition trim :: "string \<Rightarrow> string" where
  "trim s = rev (dropWhile isWhiteSpace (rev (dropWhile isWhiteSpace s)))"

text \<open>\<open>s.split('\n')\<close>: the empty string gives one empty piece.\<close>

fun splitLines :: "string \<Rightarrow> string list" where
  "splitLines [] = [[]]"
| "splitLines (c # cs) =
     (if c = CHR 0x0A then [] # splitLines cs
      else (case splitLines cs of [] \<Rightarrow> [[c]] | w # ws \<Rightarrow> (c # w) # ws))"

text \<open>\<open>value.replace(/\\/g, '/')\<close>\<close>

definition normalizePath :: "string \<Rightarrow> string" where
  "normalizePath v = map (\<lambda>c. if c = CHR 0x5C then CHR ''/'' else c) v"

text \<open>\<open>dir.replace(/\/$/, '')\<close>: one slash at the very end is removed.\<close>

definition dropTrailingSlash :: "string \<Rightarrow> string" where
  "dropTrailingSlash d = (if d \<noteq> [] \<and> last d = CHR ''/'' then butlast d else d)"

definition startsWith :: "string \<Rightarrow> string \<Rightarrow> bool" where
  "startsWith s p = (take (length p) s = p)"

text \<open>\<open>Array.from(new Set(xs))\<close>: a Set keeps the first occurrence, in insertion order.\<close>

fun setFromList :: "'a list \<Rightarrow> 'a list \<Rightarrow> 'a list" where
  "setFromList [] seen = seen"
| "setFromList (x # xs) seen = setFromList xs (if x \<in> set seen then seen else seen @ [x])"

text \<open>Lower case of an ASCII letter, used for the \<open>/i\<close> flag of the regular expressions.\<close>

definition toLower :: "char \<Rightarrow> char" where
  "toLower c =
     (let n = of_char c :: nat in if 65 \<le> n \<and> n \<le> 90 then char_of (n + 32) else c)"

text \<open>\<open>RegExp.test\<close> of a literal pattern without anchors: the pattern occurs somewhere.\<close>

fun contains :: "string \<Rightarrow> string \<Rightarrow> bool" where
  "contains pat [] = (pat = [])"
| "contains pat (c # cs) = (take (length pat) (c # cs) = pat \<or> contains pat cs)"

text \<open>Decimal digits of a length, as a template literal prints it.\<close>

fun showNat :: "nat \<Rightarrow> string" where
  "showNat n =
     (if n < 10 then [char_of (48 + n)]
      else showNat (n div 10) @ [char_of (48 + n mod 10)])"

declare showNat.simps [simp del]

section \<open>GitService (src/unnamed/part_003)\<close>

text \<open>
  A thrown value is an \<open>Error\<close> with its message, or something else
  (\<open>error instanceof Error ? error.message : 'Unknown error'\<close>).
\<close>

datatype thrown = Error string | NonError

definition errorMessage :: "thrown \<Rightarrow> string" where
  "errorMessage e = (case e of Error m \<Rightarrow> m | NonError \<Rightarrow> ''Unknown error'')"

text \<open>
  \<open>execFileSync('git', args, {encoding: 'utf8', cwd: projectPath})\<close> returns the standard
  output of the command or throws. The repository is the collaborator: a function from the
  argument vector to that outcome.
\<close>

type_synonym git = "string list \<Rightarrow> thrown + string"

text \<open>\<open>/^[0-9a-f]{7,40}$/i\<close>\<close>

definition isHexDigit :: "char \<Rightarrow> bool" where
  "isHexDigit c = (c \<in> set ''0123456789abcdefABCDEF'')"

definition COMMIT_HASH_REGEX :: "string \<Rightarrow> bool" where
  "COMMIT_HASH_REGEX s = (7 \<le> length s \<and> length s \<le> 40 \<and> list_all isHexDigit s)"

definition filterFilesToPackages :: "string list \<Rightarrow> string list \<Rightarrow> string list" where
  "filterFilesToPackages fs packageDirs =
     (if length packageDirs = 0 then fs
      else
        (let normalizedDirs = map (\<lambda>dir. dropTrailingSlash (normalizePath dir)) packageDirs
         in filter (\<lambda>file. list_ex (\<lambda>dir. file = dir \<or> startsWith file (dir @ ''/'')) normalizedDirs) fs))"

text \<open>\<open>.split('\n').map((file) => file.trim()).filter((file) => file.length > 0)\<close>\<close>

definition outputLines :: "string \<Rightarrow> string list" where
  "outputLines out = filter (\<lambda>file. length file > 0) (map trim (splitLines out))"

record CommitFiles =
  cfiles :: "string list"
  warning :: "string option"

text \<open>The inner \<open>try\<close> block of \<open>getModifiedFilesFromCommit\<close>: the merge fallback.\<close>

definition mergeFiles :: "git \<Rightarrow> string \<Rightarrow> thrown + string list" where
  "mergeFiles run commitHash =
     (case run [''rev-parse'', commitHash @ ''^2''] of
        Inl e \<Rightarrow> Inl e
      | Inr p \<Rightarrow>
          (let mergeParent = trim p
           in case run [''merge-base'', commitHash @ ''^1'', mergeParent] of
                Inl e \<Rightarrow> Inl e
              | Inr b \<Rightarrow>
                  (let mergeBase = trim b
                   in case run [''diff'', ''--name-only'', ''--diff-filter=ACMRT'', mergeBase, commitHash] of
                        Inl e \<Rightarrow> Inl e
                      | Inr raw \<Rightarrow> Inr (outputLines raw))))"

definition getModifiedFilesFromCommit :: "git \<Rightarrow> string \<Rightarrow> CommitFiles" where
  "getModifiedFilesFromCommit run commitHash =
     (if \<not> COMMIT_HASH_REGEX commitHash
      then \<lparr>cfiles = [], warning = Some (''Invalid commit hash format: '' @ commitHash)\<rparr>
      else
        (case run [''diff-tree'', ''-r'', ''--no-commit-id'', ''--name-only'', ''--diff-filter=ACMRT'', commitHash] of
           Inl error \<Rightarrow>
             \<lparr>cfiles = [],
              warning = Some (''Error processing commit '' @ commitHash @ '': '' @ errorMessage error)\<rparr>
         | Inr raw \<Rightarrow>
             (let output = outputLines raw
              in if length output > 0 then \<lparr>cfiles = output, warning = None\<rparr>
                 else
                   (case mergeFiles run commitHash of
                      Inl e \<Rightarrow>
                        \<lparr>cfiles = [],
                         warning = Some (''Could not resolve merge files for '' @ commitHash @ ''.'')\<rparr>
                    | Inr mergeOutput \<Rightarrow> \<lparr>cfiles = mergeOutput, warning = None\<rparr>))))"

text \<open>
  The \<open>for (const commitHash of commitHashes)\<close> loop, carrying \<open>allFiles\<close> and
  \<open>warnings\<close>; \<open>if (warning)\<close> is the truthiness test.
\<close>

fun commitsLoop :: "git \<Rightarrow> string list \<Rightarrow> string list \<times> string list \<Rightarrow> string list \<times> string list" where
  "commitsLoop run [] st = st"
| "commitsLoop run (commitHash # rest) (allFiles, warns) =
     (let r = getModifiedFilesFromCommit run commitHash
      in commitsLoop run rest
           (allFiles @ cfiles r,
            if truthy (warning r) then warns @ [the (warning r)] else warns))"

record GitFileResult =
  files :: "string list"
  warnings :: "string list"

text \<open>
  \<open>packageDirs\<close> is what \<open>GitService.getPackageDirectories(projectPath)\<close> returned; that
  function catches every fault and returns a list.
\<close>

definition getModifiedFilesFromCommits :: "git \<Rightarrow> string list \<Rightarrow> string list \<Rightarrow> GitFileResult" where
  "getModifiedFilesFromCommits run packageDirs commitHashes =
     (let (allFiles, warns) = commitsLoop run commitHashes ([], []);
          uniqueFiles = filter (\<lambda>file. length file > 0) (setFromList (map normalizePath allFiles) []);
          filtered = filterFilesToPackages uniqueFiles packageDirs
      in \<lparr>files = filtered,
          warnings =
            (if length uniqueFiles > 0 \<and> length filtered = 0 \<and> length packageDirs > 0
             then warns @ [''No files matched the configured packageDirectories.'']
             else warns)\<rparr>)"

section \<open>MetadataService.retrieve and MetadataService.deploy\<close>

record ActionResult =
  success :: bool
  message :: string
  details :: "string list option"

text \<open>\<open>MetadataProgress\<close>; its \<open>message\<close> field is \<open>progressMessage\<close> here.\<close>

record MetadataProgress =
  current :: int
  total :: int
  progressMessage :: "string option"

text \<open>A field of type \<open>T | T[] | undefined\<close>.\<close>

datatype 'a OneOrMany = Absent | One 'a | Many "'a list"

text \<open>\<open>(Array.isArray(v) ? v : [v])[0]\<close> for a present \<open>v\<close>.\<close>

definition firstOf :: "'a OneOrMany \<Rightarrow> 'a option" where
  "firstOf v =
     (case v of Absent \<Rightarrow> None | One x \<Rightarrow> Some x
      | Many xs \<Rightarrow> (case xs of [] \<Rightarrow> None | x # _ \<Rightarrow> Some x))"

text \<open>\<open>/cancelled|canceled/i.test(value)\<close>, after the guard \<open>if (!value) return false\<close>.\<close>

definition isCanceled :: "string option \<Rightarrow> bool" where
  "isCanceled v =
     (if \<not> truthy v then False
      else contains ''cancelled'' (map toLower (the v)) \<or> contains ''canceled'' (map toLower (the v)))"

text \<open>
  The callbacks \<open>onProgress\<close> and \<open>onCancelable\<close> belong to the caller and may throw; both
  are optional. The \<open>cancel\<close> closure handed to \<open>onCancelable\<close> is represented by the
  outcome of running it.
\<close>

type_synonym onProgress = "(MetadataProgress \<Rightarrow> thrown + unit) option"
type_synonym onCancelable = "((thrown + unit) \<Rightarrow> thrown + unit) option"

definition andThen :: "'e + 'a \<Rightarrow> ('a \<Rightarrow> 'e + 'b) \<Rightarrow> 'e + 'b" where
  "andThen m f = (case m of Inl e \<Rightarrow> Inl e | Inr x \<Rightarrow> f x)"

subsection \<open>retrieve\<close>

record FileProblem =
  fp_fileName :: "string option"
  fp_problem :: "string option"

record RetrieveUpdate =
  numberComponentsRetrieved :: "int option"
  ru_numberComponentsTotal :: "int option"
  ru_status :: "string option"
  ru_messages :: "FileProblem OneOrMany"

datatype Message = Text string | Problem FileProblem

record RetrieveResponse =
  rr_status :: "string option"
  rr_success :: bool
  rr_messages :: "Message OneOrMany"

text \<open>
  The operation returned by \<open>componentSet.retrieve\<close>: \<open>cancel\<close> and \<open>onUpdate\<close> may be
  missing (\<open>typeof ... === 'function'\<close>); \<open>pollStatus\<close> runs with the listener that was
  registered, if any, and resolves with the response or rejects.
\<close>

record RetrieveOperation =
  ro_cancel :: "(thrown + unit) option"
  ro_onUpdate :: "((RetrieveUpdate \<Rightarrow> thrown + unit) \<Rightarrow> thrown + unit) option"
  ro_pollStatus :: "(RetrieveUpdate \<Rightarrow> thrown + unit) option \<Rightarrow> thrown + RetrieveResponse"

text \<open>A \<open>ComponentSet\<close> of \<open>{type, fullName}\<close> entries, and the transport that uses it.\<close>

type_synonym ComponentSet = "(string \<times> string) list"

record RetrieveTransport =
  rt_add :: "ComponentSet \<Rightarrow> string \<times> string \<Rightarrow> thrown + ComponentSet"
  rt_retrieve :: "ComponentSet \<Rightarrow> thrown + RetrieveOperation"

fun addLoop :: "RetrieveTransport \<Rightarrow> ComponentSet \<Rightarrow> MetadataComponent list \<Rightarrow> thrown + ComponentSet" where
  "addLoop t componentSet [] = Inr componentSet"
| "addLoop t componentSet (component # rest) =
     andThen (rt_add t componentSet (type' component, fullName component))
       (\<lambda>componentSet'. addLoop t componentSet' rest)"

definition cancelRetrieve :: "RetrieveOperation \<Rightarrow> thrown + unit" where
  "cancelRetrieve operation =
     (case ro_cancel operation of None \<Rightarrow> Inr () | Some outcome \<Rightarrow> outcome)"

definition resolveRetrieveMessage :: "RetrieveUpdate \<Rightarrow> string option" where
  "resolveRetrieveMessage payload =
     (let problem = Option.bind (firstOf (ru_messages payload)) fp_problem
      in if truthy problem then Some (''Retrieve warning: '' @ the problem)
         else if truthy (ru_status payload) then Some (''Status: '' @ the (ru_status payload))
         else None)"

definition retrieveListener :: "onProgress \<Rightarrow> int \<Rightarrow> RetrieveUpdate \<Rightarrow> thrown + unit" where
  "retrieveListener onProgress total' update =
     (case onProgress of
        None \<Rightarrow> Inr ()
      | Some progress \<Rightarrow>
          (let totalFromUpdate =
                 (case ru_numberComponentsTotal update of None \<Rightarrow> total' | Some n \<Rightarrow> n);
               msg = resolveRetrieveMessage update
           in case numberComponentsRetrieved update of
                Some cur \<Rightarrow> progress \<lparr>current = cur, total = totalFromUpdate, progressMessage = msg\<rparr>
              | None \<Rightarrow> Inr ()))"

definition completed :: "onProgress \<Rightarrow> int \<Rightarrow> thrown + unit" where
  "completed onProgress total' =
     (case onProgress of
        Some progress \<Rightarrow>
          if total' > 0
          then progress \<lparr>current = total', total = total', progressMessage = Some ''Status: Completed''\<rparr>
          else Inr ()
      | None \<Rightarrow> Inr ())"

definition describe :: "MetadataComponent \<Rightarrow> string" where
  "describe component = type' component @ '': '' @ fullName component"

definition messageText :: "Message \<Rightarrow> string" where
  "messageText m =
     (case m of Text s \<Rightarrow> s
      | Problem p \<Rightarrow> (case fp_problem p of Some x \<Rightarrow> x | None \<Rightarrow> ''Unknown error''))"

definition retrieveDetails :: "Message OneOrMany \<Rightarrow> string list" where
  "retrieveDetails messages =
     (case messages of
        Many ms \<Rightarrow> map messageText ms
      | One m \<Rightarrow> (if m = Text [] then [''Unknown error''] else [messageText m])
      | Absent \<Rightarrow> [''Unknown error''])"

definition retrieveOutcome :: "MetadataComponent list \<Rightarrow> RetrieveResponse \<Rightarrow> ActionResult" where
  "retrieveOutcome components response =
     (if isCanceled (rr_status response)
      then \<lparr>success = False, message = ''Retrieve cancelled'', details = None\<rparr>
      else if rr_success response
      then \<lparr>success = True,
            message = ''Successfully retrieved '' @ showNat (length components) @ '' component(s)'',
            details = Some (map describe components)\<rparr>
      else \<lparr>success = False, message = ''Retrieve failed'',
            details = Some (retrieveDetails (rr_messages response))\<rparr>)"

text \<open>The \<open>try\<close> block of \<open>retrieve\<close>; \<open>Inl\<close> is a fault thrown inside it.\<close>

definition retrieveTry :: "RetrieveTransport \<Rightarrow> MetadataComponent list \<Rightarrow> onProgress \<Rightarrow> onCancelable \<Rightarrow> thrown + ActionResult" where
  "retrieveTry t components onProgress onCancelable =
     andThen (addLoop t [] components) (\<lambda>componentSet.
     andThen (rt_retrieve t componentSet) (\<lambda>operation.
     andThen (case onCancelable of None \<Rightarrow> Inr () | Some f \<Rightarrow> f (cancelRetrieve operation)) (\<lambda>_.
     let total' = int (length components);
         listener = retrieveListener onProgress total'
     in
     andThen (case ro_onUpdate operation of None \<Rightarrow> Inr () | Some register \<Rightarrow> register listener) (\<lambda>_.
     andThen (ro_pollStatus operation (map_option (\<lambda>_. listener) (ro_onUpdate operation))) (\<lambda>response.
     andThen (completed onProgress total') (\<lambda>_.
     Inr (retrieveOutcome components response)))))))"

text \<open>The \<open>catch\<close> block of \<open>retrieve\<close>.\<close>

definition retrieveCatch :: "thrown \<Rightarrow> ActionResult" where
  "retrieveCatch error =
     (if isCanceled (case error of Error m \<Rightarrow> Some m | NonError \<Rightarrow> None)
      then \<lparr>success = False, message = ''Retrieve cancelled'', details = None\<rparr>
      else \<lparr>success = False, message = ''Retrieve error: '' @ errorMessage error, details = None\<rparr>)"

text \<open>
  The whole method: \<open>Inr\<close> is the value the returned promise resolves with, \<open>Inl\<close> would be
  a fault that leaves the method.
\<close>

definition retrieve :: "RetrieveTransport \<Rightarrow> MetadataComponent list \<Rightarrow> onProgress \<Rightarrow> onCancelable \<Rightarrow> thrown + ActionResult" where
  "retrieve t components onProgress onCancelable =
     (case retrieveTry t components onProgress onCancelable of
        Inr result \<Rightarrow> Inr result
      | Inl error \<Rightarrow> Inr (retrieveCatch error))"

subsection \<open>deploy\<close>

datatype ProblemType = Warning | Failure

record ComponentFailure =
  cf_fullName :: "string option"
  cf_problem :: "string option"
  problemType :: "ProblemType option"

record DeployDetails =
  componentFailures :: "ComponentFailure OneOrMany"

record DeployUpdate =
  numberComponentsDeployed :: "int option"
  du_numberComponentsTotal :: "int option"
  du_status :: "string option"
  du_details :: "DeployDetails option"

record DeployResponse =
  dr_status :: "string option"
  dr_success :: bool
  dr_details :: "DeployDetails option"

record DeployOperation =
  do_cancel :: "(thrown + unit) option"
  do_onUpdate :: "((DeployUpdate \<Rightarrow> thrown + unit) \<Rightarrow> thrown + unit) option"
  do_pollStatus :: "(DeployUpdate \<Rightarrow> thrown + unit) option \<Rightarrow> thrown + DeployResponse"

record SourceComponent =
  sc_type :: string
  sc_fullName :: string
  xml :: "string option"
  content :: "string option"

text \<open>
  \<open>ComponentSet.fromSource\<close>, \<open>getSourceComponents\<close>, \<open>add\<close> and \<open>deploy\<close>; a set of source
  components is the list of its members, and \<open>size\<close> is its length.
\<close>

record DeployTransport =
  dt_fromSource :: "string list \<Rightarrow> thrown + SourceComponent list"
  dt_getSourceComponents :: "SourceComponent list \<Rightarrow> string \<times> string \<Rightarrow> thrown + SourceComponent list"
  dt_add :: "SourceComponent list \<Rightarrow> SourceComponent \<Rightarrow> thrown + SourceComponent list"
  dt_deploy :: "SourceComponent list \<Rightarrow> thrown + DeployOperation"

fun addSources :: "DeployTransport \<Rightarrow> SourceComponent list \<Rightarrow> SourceComponent list \<Rightarrow> thrown + SourceComponent list" where
  "addSources t componentSet [] = Inr componentSet"
| "addSources t componentSet (sourceComponent # rest) =
     andThen (dt_add t componentSet sourceComponent)
       (\<lambda>componentSet'. addSources t componentSet' rest)"

fun collectLoop :: "DeployTransport \<Rightarrow> SourceComponent list \<Rightarrow> SourceComponent list \<Rightarrow> MetadataComponent list \<Rightarrow> thrown + SourceComponent list" where
  "collectLoop t fullComponentSet componentSet [] = Inr componentSet"
| "collectLoop t fullComponentSet componentSet (component # rest) =
     andThen (dt_getSourceComponents t fullComponentSet (fullName component, type' component))
       (\<lambda>sourceComponents.
          andThen (addSources t componentSet sourceComponents)
            (\<lambda>componentSet'. collectLoop t fullComponentSet componentSet' rest))"

definition cancelDeploy :: "DeployOperation \<Rightarrow> thrown + unit" where
  "cancelDeploy operation =
     (case do_cancel operation of None \<Rightarrow> Inr () | Some outcome \<Rightarrow> outcome)"

definition resolveDeployMessage :: "DeployUpdate \<Rightarrow> string option" where
  "resolveDeployMessage payload =
     (let failures = (case du_details payload of None \<Rightarrow> Absent | Some d \<Rightarrow> componentFailures d);
          first = firstOf failures;
          problem = Option.bind first cf_problem
      in if truthy problem
         then
           (let label = (case Option.bind first problemType of
                           Some Warning \<Rightarrow> ''Warning'' | Some Failure \<Rightarrow> ''Error'' | None \<Rightarrow> ''Error'');
                name = (if truthy (Option.bind first cf_fullName)
                        then '' '' @ the (Option.bind first cf_fullName) else [])
            in Some (trim (label @ '':'' @ name @ '' '' @ the problem)))
         else if truthy (du_status payload) then Some (''Status: '' @ the (du_status payload))
         else None)"

definition deployListener :: "onProgress \<Rightarrow> int \<Rightarrow> DeployUpdate \<Rightarrow> thrown + unit" where
  "deployListener onProgress total' update =
     (case onProgress of
        None \<Rightarrow> Inr ()
      | Some progress \<Rightarrow>
          (let totalFromUpdate =
                 (case du_numberComponentsTotal update of None \<Rightarrow> total' | Some n \<Rightarrow> n);
               msg = resolveDeployMessage update
           in case numberComponentsDeployed update of
                Some cur \<Rightarrow> progress \<lparr>current = cur, total = totalFromUpdate, progressMessage = msg\<rparr>
              | None \<Rightarrow> Inr ()))"

definition failureText :: "ComponentFailure \<Rightarrow> string" where
  "failureText failure =
     (case cf_fullName failure of Some n \<Rightarrow> n | None \<Rightarrow> ''Unknown'') @ '': '' @
     (case cf_problem failure of Some x \<Rightarrow> x | None \<Rightarrow> ''Unknown error'')"

definition failureMessages :: "DeployDetails option \<Rightarrow> string list" where
  "failureMessages d =
     (case (case d of None \<Rightarrow> Absent | Some x \<Rightarrow> componentFailures x) of
        Many fs \<Rightarrow> map failureText fs
      | One f \<Rightarrow> [failureText f]
      | Absent \<Rightarrow> [''Unknown error''])"

definition deployOutcome :: "MetadataComponent list \<Rightarrow> DeployResponse \<Rightarrow> ActionResult" where
  "deployOutcome components response =
     (if isCanceled (dr_status response)
      then \<lparr>success = False, message = ''Deploy cancelled'', details = None\<rparr>
      else if dr_success response
      then \<lparr>success = True,
            message = ''Successfully deployed '' @ showNat (length components) @ '' component(s)'',
            details = Some (map describe components)\<rparr>
      else \<lparr>success = False, message = ''Deploy failed'',
            details = Some (failureMessages (dr_details response))\<rparr>)"

text \<open>
  The \<open>try\<close> block of \<open>deploy\<close>. \<open>packagePaths\<close> is what \<open>getPackagePaths()\<close> returned; that
  method catches every fault and falls back to the project path.
\<close>

definition deployTry :: "DeployTransport \<Rightarrow> string list \<Rightarrow> MetadataComponent list \<Rightarrow> onProgress \<Rightarrow> onCancelable \<Rightarrow> thrown + ActionResult" where
  "deployTry t packagePaths components onProgress onCancelable =
     andThen (dt_fromSource t packagePaths) (\<lambda>fullComponentSet.
     andThen (collectLoop t fullComponentSet [] components) (\<lambda>componentSet.
     if length componentSet = 0
     then Inr \<lparr>success = False, message = ''No local components found to deploy'', details = None\<rparr>
     else
     andThen (dt_deploy t componentSet) (\<lambda>operation.
     andThen (case onCancelable of None \<Rightarrow> Inr () | Some f \<Rightarrow> f (cancelDeploy operation)) (\<lambda>_.
     let total' = int (length components);
         listener = deployListener onProgress total'
     in
     andThen (case do_onUpdate operation of None \<Rightarrow> Inr () | Some register \<Rightarrow> register listener) (\<lambda>_.
     andThen (do_pollStatus operation (map_option (\<lambda>_. listener) (do_onUpdate operation))) (\<lambda>response.
     andThen (completed onProgress total') (\<lambda>_.
     Inr (deployOutcome components response))))))))"

definition deployCatch :: "thrown \<Rightarrow> ActionResult" where
  "deployCatch error =
     (if isCanceled (case error of Error m \<Rightarrow> Some m | NonError \<Rightarrow> None)
      then \<lparr>success = False, message = ''Deploy cancelled'', details = None\<rparr>
      else \<lparr>success = False, message = ''Deploy error: '' @ errorMessage error, details = None\<rparr>)"

definition deploy :: "DeployTransport \<Rightarrow> string list \<Rightarrow> MetadataComponent list \<Rightarrow> onProgress \<Rightarrow> onCancelable \<Rightarrow> thrown + ActionResult" where
  "deploy t packagePaths components onProgress onCancelable =
     (case deployTry t packagePaths components onProgress onCancelable of
        Inr result \<Rightarrow> Inr result
      | Inl error \<Rightarrow> Inr (deployCatch error))"

section \<open>Example values\<close>

text \<open>Concrete components used to run the definitions: the scenario of the specification
  (local \<open>A\<close>; remote \<open>A\<close> and \<open>B\<close>) and the two components of the selection tests.\<close>

definition exLocalA :: MetadataComponent where
  "exLocalA = \<lparr>id' = ''local-T-A-0'', type' = ''T'', fullName = ''A'', fileName = Some ''classes/A.cls'',
     lastModifiedDate = None, lastModifiedBy = None, packageName = None, isThirdParty = Some False,
     status = LocalOnly\<rparr>"

definition exRemoteA :: MetadataComponent where
  "exRemoteA = \<lparr>id' = ''remote-T-A-0'', type' = ''T'', fullName = ''A'', fileName = None,
     lastModifiedDate = Some 1700000000000, lastModifiedBy = Some ''admin'', packageName = None,
     isThirdParty = Some False, status = RemoteOnly\<rparr>"

definition exRemoteB :: MetadataComponent where
  "exRemoteB = \<lparr>id' = ''remote-T-B-1'', type' = ''T'', fullName = ''B'', fileName = None,
     lastModifiedDate = Some 1700000000001, lastModifiedBy = Some ''admin'', packageName = None,
     isThirdParty = Some False, status = RemoteOnly\<rparr>"

definition exOne :: MetadataComponent where
  "exOne = \<lparr>id' = ''1'', type' = ''ApexClass'', fullName = ''ClassA'', fileName = None,
     lastModifiedDate = None, lastModifiedBy = None, packageName = None, isThirdParty = None,
     status = LocalOnly\<rparr>"

definition exTwo :: MetadataComponent where
  "exTwo = \<lparr>id' = ''2'', type' = ''ApexClass'', fullName = ''ClassB'', fileName = None,
     lastModifiedDate = None, lastModifiedBy = None, packageName = None, isThirdParty = None,
     status = RemoteOnly\<rparr>"

text \<open>A connected org, and three persisted states: never synced, synced against another
  org, and a sync record whose stored identity is the empty string.\<close>

definition exOrg :: OrgInfo where
  "exOrg = \<lparr>username = ''user@org.com'', alias' = None, orgId = ''00D000000000001'',
     instanceUrl = ''https://example.my.salesforce.com'', isDefault = True, isScratch = False,
     isDevHub = False\<rparr>"

definition exNeverSynced :: SyncState where
  "exNeverSynced = \<lparr>lastSync = None, cache = Map.empty, subscriptions = None\<rparr>"

definition exOtherRecord :: LastSync where
  "exOtherRecord = \<lparr>orgUsername = ''other@org.com'', timestamp = ''2026-02-24T10:00:00.000Z'',
     metadataTypes = [''ApexClass'']\<rparr>"

definition exOtherSync :: SyncState where
  "exOtherSync = \<lparr>lastSync = Some exOtherRecord, cache = Map.empty, subscriptions = None\<rparr>"

definition exBlankRecord :: LastSync where
  "exBlankRecord = \<lparr>orgUsername = [], timestamp = ''2026-02-24T10:00:00.000Z'',
     metadataTypes = [''ApexClass'']\<rparr>"

definition exBlankSync :: SyncState where
  "exBlankSync = \<lparr>lastSync = Some exBlankRecord, cache = Map.empty, subscriptions = None\<rparr>"

text \<open>A repository with an ordinary commit \<open>abc1234\<close>, a merge commit \<open>def5678\<close> whose
  direct diff is empty, and a commit \<open>fed9999\<close> with an empty diff and no second parent.\<close>

definition exGit :: git where
  "exGit args =
     (if args = [''diff-tree'', ''-r'', ''--no-commit-id'', ''--name-only'', ''--diff-filter=ACMRT'', ''abc1234'']
      then Inr (''force-app/classes/A.cls'' @ [CHR 0x0A])
      else if args = [''diff-tree'', ''-r'', ''--no-commit-id'', ''--name-only'', ''--diff-filter=ACMRT'', ''def5678'']
      then Inr []
      else if args = [''rev-parse'', ''def5678^2'']
      then Inr (''aaa1111'' @ [CHR 0x0A])
      else if args = [''merge-base'', ''def5678^1'', ''aaa1111'']
      then Inr (''bbb2222'' @ [CHR 0x0A])
      else if args = [''diff'', ''--name-only'', ''--diff-filter=ACMRT'', ''bbb2222'', ''def5678'']
      then Inr (''force-app/classes/B.cls'' @ [CHR 0x0A])
      else if args = [''diff-tree'', ''-r'', ''--no-commit-id'', ''--name-only'', ''--diff-filter=ACMRT'', ''fed9999'']
      then Inr []
      else Inl (Error ''fatal: bad revision''))"

text \<open>Transports: one whose retrieve call throws, one whose source lookup throws, and one
  whose retrieve succeeds.\<close>

definition exRetrieveTransport :: RetrieveTransport where
  "exRetrieveTransport =
     \<lparr>rt_add = (\<lambda>componentSet entry. Inr (componentSet @ [entry])),
      rt_retrieve = (\<lambda>componentSet. Inl (Error ''socket hang up''))\<rparr>"

definition exDeployTransport :: DeployTransport where
  "exDeployTransport =
     \<lparr>dt_fromSource = (\<lambda>paths. Inr []),
      dt_getSourceComponents = (\<lambda>fullComponentSet key. Inl (Error ''Request was canceled'')),
      dt_add = (\<lambda>componentSet sourceComponent. Inr (componentSet @ [sourceComponent])),
      dt_deploy = (\<lambda>componentSet. Inl NonError)\<rparr>"

definition exOperation :: RetrieveOperation where
  "exOperation =
     \<lparr>ro_cancel = None,
      ro_onUpdate = Some (\<lambda>listener. Inr ()),
      ro_pollStatus = (\<lambda>listener.
         Inr \<lparr>rr_status = Some ''Succeeded'', rr_success = True, rr_messages = Absent\<rparr>)\<rparr>"

definition exRetrieveOk :: RetrieveTransport where
  "exRetrieveOk =
     \<lparr>rt_add = (\<lambda>componentSet entry. Inr (componentSet @ [entry])),
      rt_retrieve = (\<lambda>componentSet. Inr exOperation)\<rparr>"

text \<open>A retrieve whose poll response reports a cancellation, and a deploy of one source
  component whose poll response reports a component failure.\<close>

definition exCanceledOperation :: RetrieveOperation where
  "exCanceledOperation =
     \<lparr>ro_cancel = Some (Inr ()),
      ro_onUpdate = None,
      ro_pollStatus = (\<lambda>listener.
         Inr \<lparr>rr_status = Some ''Canceled'', rr_success = False, rr_messages = Absent\<rparr>)\<rparr>"

definition exRetrieveCanceled :: RetrieveTransport where
  "exRetrieveCanceled =
     \<lparr>rt_add = (\<lambda>componentSet entry. Inr (componentSet @ [entry])),
      rt_retrieve = (\<lambda>componentSet. Inr exCanceledOperation)\<rparr>"

definition exSource :: SourceComponent where
  "exSource = \<lparr>sc_type = ''T'', sc_fullName = ''A'', xml = Some ''classes/A.cls-meta.xml'',
     content = Some ''classes/A.cls''\<rparr>"

definition exFailedOperation :: DeployOperation where
  "exFailedOperation =
     \<lparr>do_cancel = None,
      do_onUpdate = Some (\<lambda>listener. Inr ()),
      do_pollStatus = (\<lambda>listener.
         Inr \<lparr>dr_status = Some ''Failed'', dr_success = False,
              dr_details = Some \<lparr>componentFailures =
                One \<lparr>cf_fullName = Some ''A'', cf_problem = Some ''Missing semicolon'',
                     problemType = Some Failure\<rparr>\<rparr>\<rparr>)\<rparr>"

definition exDeployFailed :: DeployTransport where
  "exDeployFailed =
     \<lparr>dt_fromSource = (\<lambda>paths. Inr [exSource]),
      dt_getSourceComponents = (\<lambda>fullComponentSet key. Inr [exSource]),
      dt_add = (\<lambda>componentSet sourceComponent. Inr (componentSet @ [sourceComponent])),
      dt_deploy = (\<lambda>componentSet. Inr exFailedOperation)\<rparr>"

section \<open>Properties of compareMetadata\<close>

lemma localOnlyLoop_eq:
  "localOnlyLoop R cs bucket =
     bucket @ map (\<lambda>c. c\<lparr>status := LocalOnly\<rparr>) (filter (\<lambda>c. fullName c \<notin> R) cs)"
  by (induction cs arbitrary: bucket) simp_all

lemma remoteOnlyLoop_eq:
  "remoteOnlyLoop L cs bucket =
     bucket @ map (\<lambda>c. c\<lparr>status := RemoteOnly\<rparr>) (filter (\<lambda>c. fullName c \<notin> L) cs)"
  by (induction cs arbitrary: bucket) simp_all

lemma syncedLoop_eq:
  "syncedLoop R rs cs bucket =
     bucket @ map (toSynced rs) (filter (\<lambda>c. fullName c \<in> R) cs)"
  by (induction cs arbitrary: bucket) simp_all

lemma fullName_toSynced [simp]: "fullName (toSynced rs c) = fullName c"
  by (simp add: toSynced_def Let_def)

lemma localOnly_compare:
  "localOnly (compareMetadata rs ls) =
     map (\<lambda>c. c\<lparr>status := LocalOnly\<rparr>) (filter (\<lambda>c. fullName c \<notin> names rs) ls)"
  by (simp add: compareMetadata_def Let_def localOnlyLoop_eq names_def)

lemma remoteOnly_compare:
  "remoteOnly (compareMetadata rs ls) =
     map (\<lambda>c. c\<lparr>status := RemoteOnly\<rparr>) (filter (\<lambda>c. fullName c \<notin> names ls) rs)"
  by (simp add: compareMetadata_def Let_def remoteOnlyLoop_eq names_def)

lemma synced_compare:
  "synced (compareMetadata rs ls) =
     map (toSynced rs) (filter (\<lambda>c. fullName c \<in> names rs) ls)"
  by (simp add: compareMetadata_def Let_def syncedLoop_eq names_def)

lemma names_localOnly:
  "map fullName (localOnly (compareMetadata rs ls)) =
     filter (\<lambda>n. n \<notin> names rs) (map fullName ls)"
  by (simp add: localOnly_compare filter_map comp_def)

lemma names_remoteOnly:
  "map fullName (remoteOnly (compareMetadata rs ls)) =
     filter (\<lambda>n. n \<notin> names ls) (map fullName rs)"
  by (simp add: remoteOnly_compare filter_map comp_def)

lemma names_synced:
  "map fullName (synced (compareMetadata rs ls)) =
     filter (\<lambda>n. n \<in> names rs) (map fullName ls)"
  by (simp add: synced_compare filter_map comp_def)

lemma find_fullName:
  "n \<in> names rs \<Longrightarrow> \<exists>r. find (\<lambda>x. fullName x = n) rs = Some r \<and> r \<in> set rs \<and> fullName r = n"
  by (induction rs) (auto simp: names_def)

lemma toSynced_found:
  "find (\<lambda>x. fullName x = fullName c) rs = Some r \<Longrightarrow>
     toSynced rs c = c\<lparr>status := Synced, lastModifiedDate := lastModifiedDate r,
                       lastModifiedBy := lastModifiedBy r\<rparr>"
  by (simp add: toSynced_def)

lemma example_compare:
  "compareMetadata [exRemoteA, exRemoteB] [exLocalA] =
     \<lparr>localOnly = [], remoteOnly = [exRemoteB],
      synced = [exLocalA\<lparr>status := Synced, lastModifiedDate := Some 1700000000000,
                          lastModifiedBy := Some ''admin''\<rparr>],
      conflicts = []\<rparr>"
  by (simp add: compareMetadata_def toSynced_def exLocalA_def exRemoteA_def exRemoteB_def)

text \<open>
  Claim C1. When the fullNames are pairwise distinct on each side (and each side carries its
  source's tag), the three base buckets partition the components by fullName: no fullName
  occurs twice in \<open>localOnly @ remoteOnly @ synced\<close>, the fullNames of the buckets are
  exactly those of the two inputs, and the three lengths add up to the number of distinct
  fullNames. The local-only and remote-only buckets hold input components unchanged, and
  the base comparison never fills \<open>conflicts\<close>.
\<close>

theorem compareMetadata_partition:
  assumes "distinct (map fullName localComponents)"
      and "distinct (map fullName remoteComponents)"
      and "\<forall>c \<in> set localComponents. status c = LocalOnly"
      and "\<forall>c \<in> set remoteComponents. status c = RemoteOnly"
  shows "let cmp = compareMetadata remoteComponents localComponents;
             buckets = localOnly cmp @ remoteOnly cmp @ synced cmp
         in distinct (map fullName buckets)
          \<and> names buckets = names localComponents \<union> names remoteComponents
          \<and> length (localOnly cmp) + length (remoteOnly cmp) + length (synced cmp)
              = card (names localComponents \<union> names remoteComponents)
          \<and> localOnly cmp = filter (\<lambda>c. fullName c \<notin> names remoteComponents) localComponents
          \<and> remoteOnly cmp = filter (\<lambda>c. fullName c \<notin> names localComponents) remoteComponents
          \<and> conflicts cmp = []"
proof -
  let ?cmp = "compareMetadata remoteComponents localComponents"
  let ?L = "names localComponents" and ?R = "names remoteComponents"
  have d: "distinct (map fullName (localOnly ?cmp @ remoteOnly ?cmp @ synced ?cmp))"
    using assms(1,2)
    by (auto simp: names_localOnly names_remoteOnly names_synced names_def)
  have n: "names (localOnly ?cmp @ remoteOnly ?cmp @ synced ?cmp) = ?L \<union> ?R"
    unfolding names_def map_append set_append names_localOnly names_remoteOnly names_synced
    by (auto simp: names_def)
  have "card (?L \<union> ?R) = length (map fullName (localOnly ?cmp @ remoteOnly ?cmp @ synced ?cmp))"
    using distinct_card[OF d] n by (simp add: names_def)
  then have c: "length (localOnly ?cmp) + length (remoteOnly ?cmp) + length (synced ?cmp) = card (?L \<union> ?R)"
    by simp
  have l: "localOnly ?cmp = filter (\<lambda>c. fullName c \<notin> ?R) localComponents"
    unfolding localOnly_compare using assms(3)
    by (intro map_idI) simp
  have r: "remoteOnly ?cmp = filter (\<lambda>c. fullName c \<notin> ?L) remoteComponents"
    unfolding remoteOnly_compare using assms(4)
    by (intro map_idI) simp
  have "conflicts ?cmp = []" by (simp add: compareMetadata_def Let_def)
  with d n c l r show ?thesis by (simp add: Let_def)
qed

theorem compareMetadata_partition_witness:
  "distinct (map fullName [exLocalA])
 \<and> distinct (map fullName [exRemoteA, exRemoteB])
 \<and> list_all (\<lambda>c. status c = LocalOnly) [exLocalA]
 \<and> list_all (\<lambda>c. status c = RemoteOnly) [exRemoteA, exRemoteB]
 \<and> length (localOnly (compareMetadata [exRemoteA, exRemoteB] [exLocalA]))
     + length (remoteOnly (compareMetadata [exRemoteA, exRemoteB] [exLocalA]))
     + length (synced (compareMetadata [exRemoteA, exRemoteB] [exLocalA]))
     = card (names [exLocalA] \<union> names [exRemoteA, exRemoteB])
 \<and> card (names [exLocalA] \<union> names [exRemoteA, exRemoteB]) = 2"
proof -
  have h1: "distinct (map fullName [exLocalA])" by simp
  have h2: "distinct (map fullName [exRemoteA, exRemoteB])"
    by (simp add: exRemoteA_def exRemoteB_def)
  have h3: "\<forall>c \<in> set [exLocalA]. status c = LocalOnly" by (simp add: exLocalA_def)
  have h4: "\<forall>c \<in> set [exRemoteA, exRemoteB]. status c = RemoteOnly"
    by (simp add: exRemoteA_def exRemoteB_def)
  have n: "length (localOnly (compareMetadata [exRemoteA, exRemoteB] [exLocalA]))
     + length (remoteOnly (compareMetadata [exRemoteA, exRemoteB] [exLocalA]))
     + length (synced (compareMetadata [exRemoteA, exRemoteB] [exLocalA])) = 2"
    by (simp add: example_compare)
  show ?thesis
    using h1 h2 h3 h4 n compareMetadata_partition[OF h1 h2 h3 h4]
    by (simp add: Let_def list_all_iff)
qed

text \<open>
  Claim C2. Every local component whose fullName also occurs on the remote side is put in
  \<open>synced\<close>, re-tagged \<open>synced\<close> and carrying \<open>lastModifiedDate\<close> and \<open>lastModifiedBy\<close> of
  the remote component of that fullName (the first one \<open>find\<close> meets); a fullName present
  on both sides occurs in \<open>synced\<close> and in neither \<open>localOnly\<close> nor \<open>remoteOnly\<close>, whatever the
  order of the inputs; \<open>synced\<close> holds nothing else. In the scenario of the specification
  (local \<open>A\<close>; remote \<open>A\<close>, \<open>B\<close>) the result is \<open>localOnly = []\<close>, \<open>remoteOnly = [B]\<close>,
  \<open>synced = [A]\<close>.
\<close>

theorem compareMetadata_synced:
  "(\<forall>c \<in> set localComponents. fullName c \<in> names remoteComponents \<longrightarrow>
      (\<exists>r \<in> set remoteComponents.
          find (\<lambda>remote. fullName remote = fullName c) remoteComponents = Some r
        \<and> fullName r = fullName c
        \<and> c\<lparr>status := Synced, lastModifiedDate := lastModifiedDate r,
              lastModifiedBy := lastModifiedBy r\<rparr>
            \<in> set (synced (compareMetadata remoteComponents localComponents))))
 \<and> (\<forall>n \<in> names localComponents \<inter> names remoteComponents.
        n \<in> names (synced (compareMetadata remoteComponents localComponents))
      \<and> n \<notin> names (localOnly (compareMetadata remoteComponents localComponents))
      \<and> n \<notin> names (remoteOnly (compareMetadata remoteComponents localComponents)))
 \<and> (\<forall>s \<in> set (synced (compareMetadata remoteComponents localComponents)).
        status s = Synced \<and> fullName s \<in> names localComponents \<inter> names remoteComponents)
 \<and> localOnly (compareMetadata [exRemoteA, exRemoteB] [exLocalA]) = []
 \<and> remoteOnly (compareMetadata [exRemoteA, exRemoteB] [exLocalA]) = [exRemoteB]
 \<and> synced (compareMetadata [exRemoteA, exRemoteB] [exLocalA]) =
      [exLocalA\<lparr>status := Synced, lastModifiedDate := lastModifiedDate exRemoteA,
                 lastModifiedBy := lastModifiedBy exRemoteA\<rparr>]"
proof (intro conjI ballI impI)
  fix c assume c: "c \<in> set localComponents" "fullName c \<in> names remoteComponents"
  from find_fullName[OF c(2)] obtain r where
    r: "find (\<lambda>x. fullName x = fullName c) remoteComponents = Some r"
       "r \<in> set remoteComponents" "fullName r = fullName c" by blast
  have "toSynced remoteComponents c \<in> set (synced (compareMetadata remoteComponents localComponents))"
    using c by (simp add: synced_compare)
  with r show "\<exists>r \<in> set remoteComponents.
          find (\<lambda>remote. fullName remote = fullName c) remoteComponents = Some r
        \<and> fullName r = fullName c
        \<and> c\<lparr>status := Synced, lastModifiedDate := lastModifiedDate r,
              lastModifiedBy := lastModifiedBy r\<rparr>
            \<in> set (synced (compareMetadata remoteComponents localComponents))"
    by (auto simp: toSynced_found)
next
  fix n assume "n \<in> names localComponents \<inter> names remoteComponents"
  then show "n \<in> names (synced (compareMetadata remoteComponents localComponents))"
    unfolding names_def[of "synced _"] names_synced by (simp add: names_def)
next
  fix n assume "n \<in> names localComponents \<inter> names remoteComponents"
  then show "n \<notin> names (localOnly (compareMetadata remoteComponents localComponents))"
    unfolding names_def[of "localOnly _"] names_localOnly by simp
next
  fix n assume "n \<in> names localComponents \<inter> names remoteComponents"
  then show "n \<notin> names (remoteOnly (compareMetadata remoteComponents localComponents))"
    unfolding names_def[of "remoteOnly _"] names_remoteOnly by simp
next
  fix s assume "s \<in> set (synced (compareMetadata remoteComponents localComponents))"
  then obtain c where c: "c \<in> set localComponents" "fullName c \<in> names remoteComponents"
      "s = toSynced remoteComponents c"
    by (auto simp: synced_compare)
  then show "status s = Synced" by (simp add: toSynced_def Let_def)
  from c show "fullName s \<in> names localComponents \<inter> names remoteComponents"
    by (auto simp: names_def)
qed (simp_all add: example_compare, simp_all add: exRemoteA_def)

theorem compareMetadata_synced_witness:
  "exLocalA \<in> set [exLocalA] \<and> fullName exLocalA \<in> names [exRemoteA, exRemoteB]
   \<and> ''A'' \<in> names [exLocalA] \<inter> names [exRemoteA, exRemoteB]
   \<and> ''A'' \<in> names (synced (compareMetadata [exRemoteA, exRemoteB] [exLocalA]))
   \<and> ''A'' \<notin> names (remoteOnly (compareMetadata [exRemoteA, exRemoteB] [exLocalA]))
   \<and> list_all (\<lambda>s. status s = Synced) (synced (compareMetadata [exRemoteA, exRemoteB] [exLocalA]))"
proof -
  have h: "''A'' \<in> names [exLocalA] \<inter> names [exRemoteA, exRemoteB]"
    by (simp add: names_def exLocalA_def exRemoteA_def)
  have m: "exLocalA \<in> set [exLocalA] \<and> fullName exLocalA \<in> names [exRemoteA, exRemoteB]"
    by (simp add: names_def exLocalA_def exRemoteA_def)
  from compareMetadata_synced[of "[exLocalA]" "[exRemoteA, exRemoteB]"]
  have a: "\<forall>n \<in> names [exLocalA] \<inter> names [exRemoteA, exRemoteB].
        n \<in> names (synced (compareMetadata [exRemoteA, exRemoteB] [exLocalA]))
      \<and> n \<notin> names (localOnly (compareMetadata [exRemoteA, exRemoteB] [exLocalA]))
      \<and> n \<notin> names (remoteOnly (compareMetadata [exRemoteA, exRemoteB] [exLocalA]))"
   and b: "\<forall>s \<in> set (synced (compareMetadata [exRemoteA, exRemoteB] [exLocalA])).
        status s = Synced \<and> fullName s \<in> names [exLocalA] \<inter> names [exRemoteA, exRemoteB]"
    by blast+
  from a h b m show ?thesis
    unfolding list_all_iff by blast
qed

section \<open>Properties of the selection model\<close>

lemma fold_remove: "fold Set.remove ids s = s - set ids"
  by (induction ids arbitrary: s) auto

lemma fold_insert: "fold insert ids s = s \<union> set ids"
  by (induction ids arbitrary: s) auto

lemma toggleMultiple_eq:
  "toggleMultiple ids s = (if set ids \<subseteq> s then s - set ids else s \<union> set ids)"
  by (auto simp: toggleMultiple_def Let_def fold_remove fold_insert list_all_iff)

lemma toggle_eq: "toggle i s = (if i \<in> s then s - {i} else insert i s)"
  by (simp add: toggle_def)

lemma toggles_union:
  "set js \<inter> A = {} \<Longrightarrow> toggles js (s \<union> A) = toggles js s \<union> A"
  unfolding toggles_def
proof (induction js arbitrary: s)
  case Nil
  then show ?case by simp
next
  case (Cons j js)
  then have j: "j \<notin> A" and js: "set js \<inter> A = {}" by auto
  have "toggle j (s \<union> A) = toggle j s \<union> A"
    using j by (auto simp: toggle_eq)
  with Cons.IH[OF js] show ?case by simp
qed

lemma toggles_diff:
  "set js \<inter> A = {} \<Longrightarrow> toggles js (s - A) = toggles js s - A"
  unfolding toggles_def
proof (induction js arbitrary: s)
  case Nil
  then show ?case by simp
next
  case (Cons j js)
  then have j: "j \<notin> A" and js: "set js \<inter> A = {}" by auto
  have "toggle j (s - A) = toggle j s - A"
    using j by (auto simp: toggle_eq)
  with Cons.IH[OF js] show ?case by simp
qed

lemma toggles_untouched:
  "x \<notin> set js \<Longrightarrow> x \<in> toggles js s \<longleftrightarrow> x \<in> s"
  unfolding toggles_def
  by (induction js arbitrary: s) (auto simp: toggle_eq)

text \<open>
  Claim C3. \<open>toggleMultiple\<close> is a group toggle: when every id of the input is selected,
  all of them are deselected; otherwise all of them are selected; an id outside the input
  keeps its membership. On the empty selection \<open>toggleMultiple ["1","2"]\<close> gives \<open>{1,2}\<close>, and
  applied again it gives the empty selection.
\<close>

theorem toggleMultiple_group:
  "(set ids \<subseteq> s \<longrightarrow> toggleMultiple ids s = s - set ids)
 \<and> (\<not> set ids \<subseteq> s \<longrightarrow> toggleMultiple ids s = s \<union> set ids)
 \<and> (\<forall>j. j \<notin> set ids \<longrightarrow> (j \<in> toggleMultiple ids s \<longleftrightarrow> j \<in> s))
 \<and> toggleMultiple [''1'', ''2''] {} = {''1'', ''2''}
 \<and> toggleMultiple [''1'', ''2''] (toggleMultiple [''1'', ''2''] {}) = {}"
  by (auto simp: toggleMultiple_eq)

theorem toggleMultiple_group_witness:
  "set [''a'', ''b''] \<subseteq> {''a'', ''b'', ''c''}
 \<and> toggleMultiple [''a'', ''b''] {''a'', ''b'', ''c''} = {''c''}
 \<and> \<not> set [''a'', ''d''] \<subseteq> {''a'', ''b'', ''c''}
 \<and> toggleMultiple [''a'', ''d''] {''a'', ''b'', ''c''} = {''a'', ''b'', ''c'', ''d''}
 \<and> ''c'' \<notin> set [''a'', ''b''] \<and> ''c'' \<in> toggleMultiple [''a'', ''b''] {''a'', ''b'', ''c''}"
proof -
  have h1: "set [''a'', ''b''] \<subseteq> {''a'', ''b'', ''c''}" by simp
  have h2: "\<not> set [''a'', ''d''] \<subseteq> {''a'', ''b'', ''c''}" by simp
  have h3: "''c'' \<notin> set [''a'', ''b'']" by simp
  note g1 = toggleMultiple_group[of "[''a'', ''b'']" "{''a'', ''b'', ''c''}"]
  note g2 = toggleMultiple_group[of "[''a'', ''d'']" "{''a'', ''b'', ''c''}"]
  have a: "toggleMultiple [''a'', ''b''] {''a'', ''b'', ''c''} = {''a'', ''b'', ''c''} - set [''a'', ''b'']"
    by (rule g1[THEN conjunct1, rule_format, OF h1])
  have c: "''c'' \<in> toggleMultiple [''a'', ''b''] {''a'', ''b'', ''c''}"
    using g1[THEN conjunct2, THEN conjunct2, THEN conjunct1, rule_format, OF h3] by simp
  have b: "toggleMultiple [''a'', ''d''] {''a'', ''b'', ''c''} = {''a'', ''b'', ''c''} \<union> set [''a'', ''d'']"
    by (rule g2[THEN conjunct2, THEN conjunct1, rule_format, OF h2])
  have a': "{''a'', ''b'', ''c''} - set [''a'', ''b''] = {''c''}" by auto
  have b': "{''a'', ''b'', ''c''} \<union> set [''a'', ''d''] = {''a'', ''b'', ''c'', ''d''}" by auto
  show ?thesis using h1 h2 h3 c unfolding a b a' b' by simp
qed

text \<open>
  Claim C4, as stated, fails for a group that is partly selected: from the selection
  \<open>{1}\<close>, two applications of \<open>toggleMultiple ["1","2"]\<close> end in the empty selection, not in
  \<open>{1}\<close>.
\<close>

theorem toggleMultiple_twice_counterexample:
  "toggleMultiple [''1'', ''2''] (toggleMultiple [''1'', ''2''] {''1''}) \<noteq> {''1''}"
  by (simp add: toggleMultiple_eq)

text \<open>
  Claim C4, amended. When the ids of the group are all selected or all unselected in the
  original selection, two applications of \<open>toggleMultiple ids\<close> restore it, also when other
  ids, none of them in \<open>ids\<close>, are toggled one by one in between: the result is the
  original selection with just those toggles applied.
\<close>

theorem toggleMultiple_round_trip:
  assumes "set ids \<subseteq> s \<or> set ids \<inter> s = {}"
      and "set js \<inter> set ids = {}"
  shows "toggleMultiple ids (toggles js (toggleMultiple ids s)) = toggles js s"
proof (cases "set ids \<subseteq> s")
  case True
  then have 1: "toggleMultiple ids s = s - set ids" by (simp add: toggleMultiple_eq)
  have 2: "toggles js (s - set ids) = toggles js s - set ids"
    using assms(2) by (rule toggles_diff)
  have 3: "set ids \<subseteq> toggles js s"
    using True assms(2) toggles_untouched[of _ js s] by blast
  show ?thesis
  proof (cases "set ids = {}")
    case True
    then show ?thesis by (simp add: toggleMultiple_eq)
  next
    case False
    then have "\<not> set ids \<subseteq> toggles js s - set ids" by (cases ids) auto
    with 1 2 3 show ?thesis by (auto simp: toggleMultiple_eq)
  qed
next
  case False
  with assms(1) have d: "set ids \<inter> s = {}" by simp
  from False have 1: "toggleMultiple ids s = s \<union> set ids" by (simp add: toggleMultiple_eq)
  have 2: "toggles js (s \<union> set ids) = toggles js s \<union> set ids"
    using assms(2) by (rule toggles_union)
  have 3: "set ids \<inter> toggles js s = {}"
    using d assms(2) toggles_untouched[of _ js s] by blast
  from 1 2 3 show ?thesis by (auto simp: toggleMultiple_eq)
qed

theorem toggleMultiple_round_trip_witness:
  "(set [''1'', ''2''] \<subseteq> {''3''} \<or> set [''1'', ''2''] \<inter> {''3''} = {})
 \<and> set [''4''] \<inter> set [''1'', ''2''] = {}
 \<and> toggleMultiple [''1'', ''2''] (toggles [''4''] (toggleMultiple [''1'', ''2''] {''3''})) = {''3'', ''4''}"
proof -
  have h1: "set [''1'', ''2''] \<subseteq> {''3''} \<or> set [''1'', ''2''] \<inter> {''3''} = {}" by simp
  have h2: "set [''4''] \<inter> set [''1'', ''2''] = {}" by simp
  have t: "toggles [''4''] {''3''} = {''3'', ''4''}" by (auto simp: toggles_def toggle_eq)
  show ?thesis
    using h1 h2 toggleMultiple_round_trip[OF h1 h2] t by simp
qed

text \<open>
  Claim C5. \<open>selectAll xs\<close> followed by \<open>selectAll ys\<close> leaves exactly the ids of \<open>ys\<close>,
  whatever was selected before: a replacement, never a union.
\<close>

theorem selectAll_replaces:
  "selectAll ys (selectAll xs s) = set (map id' ys) \<and> selectAll ys s = set (map id' ys)"
  by (simp add: selectAll_def)

text \<open>
  Claim C10. \<open>selectedComponents\<close> holds exactly the components of the supplied list whose
  id is selected (each as often as the list holds it), \<open>count\<close> is its length, and a selected
  id that no component of the list carries adds neither a member nor to the count.
\<close>

theorem selectedComponents_exact:
  "set (selectedComponents allComponents selectedIds)
     = {c \<in> set allComponents. id' c \<in> selectedIds}
 \<and> (\<forall>c. count_list (selectedComponents allComponents selectedIds) c
        = (if id' c \<in> selectedIds then count_list allComponents c else 0))
 \<and> count allComponents selectedIds = length (selectedComponents allComponents selectedIds)
 \<and> (\<forall>i. i \<notin> id' ` set allComponents \<longrightarrow>
        selectedComponents allComponents (insert i selectedIds)
          = selectedComponents allComponents selectedIds
      \<and> count allComponents (insert i selectedIds) = count allComponents selectedIds
      \<and> (\<forall>c \<in> set (selectedComponents allComponents (insert i selectedIds)). id' c \<noteq> i))"
proof (intro conjI allI impI)
  show "set (selectedComponents allComponents selectedIds)
     = {c \<in> set allComponents. id' c \<in> selectedIds}"
    by (auto simp: selectedComponents_def)
  show "count_list (selectedComponents allComponents selectedIds) c
        = (if id' c \<in> selectedIds then count_list allComponents c else 0)" for c
    unfolding selectedComponents_def
    by (induction allComponents) auto
  show "count allComponents selectedIds = length (selectedComponents allComponents selectedIds)"
    by (simp add: count_def)
next
  fix i assume i: "i \<notin> id' ` set allComponents"
  then show eq: "selectedComponents allComponents (insert i selectedIds)
          = selectedComponents allComponents selectedIds"
    unfolding selectedComponents_def by (intro filter_cong) auto
  then show "count allComponents (insert i selectedIds) = count allComponents selectedIds"
    by (simp add: count_def)
  from i show "\<forall>c \<in> set (selectedComponents allComponents (insert i selectedIds)). id' c \<noteq> i"
    by (auto simp: selectedComponents_def)
qed

theorem selectedComponents_exact_witness:
  "''9'' \<notin> id' ` set [exOne, exTwo]
 \<and> selectedComponents [exOne, exTwo] {''2'', ''9''} = [exTwo]
 \<and> count [exOne, exTwo] {''2'', ''9''} = 1"
proof -
  have h: "''9'' \<notin> id' ` set [exOne, exTwo]" by (simp add: exOne_def exTwo_def)
  have s: "selectedComponents [exOne, exTwo] {''2''} = [exTwo]"
    by (simp add: selectedComponents_def exOne_def exTwo_def)
  have e: "{''2'', ''9''} = insert ''9'' {''2''}" by auto
  note g = selectedComponents_exact[of "[exOne, exTwo]" "{''2''}",
      THEN conjunct2, THEN conjunct2, THEN conjunct2, rule_format, OF h]
  have "selectedComponents [exOne, exTwo] (insert ''9'' {''2''}) = selectedComponents [exOne, exTwo] {''2''}"
    and "count [exOne, exTwo] (insert ''9'' {''2''}) = count [exOne, exTwo] {''2''}"
    using g by simp_all
  with h s e show ?thesis by (simp add: count_def)
qed

section \<open>Properties of cache staleness\<close>

text \<open>
  Claim C6, as stated, fails for a sync record whose stored identity is the empty string:
  the record exists and its identity differs from the connected org, yet the truthiness
  guard \<open>lastSyncOrg &&\<close> reports the cache as not stale (and the status as \<open>empty\<close>).
\<close>

theorem isCacheStale_blank_counterexample:
  "lastSync exBlankSync = Some exBlankRecord
 \<and> orgUsername exBlankRecord \<noteq> username exOrg
 \<and> \<not> isCacheStale (Some exOrg) (lastSyncOrg (Some exBlankSync))
 \<and> cacheStatus (Some exOrg) (lastSyncOrg (Some exBlankSync)) = Empty"
  by (simp add: exBlankSync_def exBlankRecord_def exOrg_def isCacheStale_def cacheStatus_def
        lastSyncOrg_def truthy_def)

text \<open>
  Claim C6, amended. For a connected org and a loaded state, the cache is reported stale
  iff a sync record exists whose stored identity is non-empty and differs from the
  username of the connected org; the status is \<open>stale\<close> exactly then; with no sync record
  the status is \<open>empty\<close> and the cache is not stale.
\<close>

theorem isCacheStale_iff:
  "(isCacheStale (Some org) (lastSyncOrg (Some st)) \<longleftrightarrow>
      (\<exists>r. lastSync st = Some r \<and> orgUsername r \<noteq> [] \<and> orgUsername r \<noteq> username org))
 \<and> (cacheStatus (Some org) (lastSyncOrg (Some st)) = Stale \<longleftrightarrow>
      isCacheStale (Some org) (lastSyncOrg (Some st)))
 \<and> (lastSync st = None \<longrightarrow>
      cacheStatus (Some org) (lastSyncOrg (Some st)) = Empty
    \<and> \<not> isCacheStale (Some org) (lastSyncOrg (Some st)))"
  by (cases "lastSync st")
     (auto simp: isCacheStale_def cacheStatus_def lastSyncOrg_def truthy_def)

theorem isCacheStale_iff_witness:
  "lastSync exNeverSynced = None
 \<and> cacheStatus (Some exOrg) (lastSyncOrg (Some exNeverSynced)) = Empty
 \<and> \<not> isCacheStale (Some exOrg) (lastSyncOrg (Some exNeverSynced))
 \<and> isCacheStale (Some exOrg) (lastSyncOrg (Some exOtherSync))
 \<and> cacheStatus (Some exOrg) (lastSyncOrg (Some exOtherSync)) = Stale"
proof -
  have h: "lastSync exNeverSynced = None" by (simp add: exNeverSynced_def)
  note e = isCacheStale_iff[of exOrg exNeverSynced, THEN conjunct2, THEN conjunct2, rule_format, OF h]
  have r: "\<exists>r. lastSync exOtherSync = Some r \<and> orgUsername r \<noteq> [] \<and> orgUsername r \<noteq> username exOrg"
    by (simp add: exOtherSync_def exOtherRecord_def exOrg_def)
  have s: "isCacheStale (Some exOrg) (lastSyncOrg (Some exOtherSync))"
    using isCacheStale_iff[of exOrg exOtherSync, THEN conjunct1] r by blast
  have t: "cacheStatus (Some exOrg) (lastSyncOrg (Some exOtherSync)) = Stale"
    using isCacheStale_iff[of exOrg exOtherSync, THEN conjunct2, THEN conjunct1] s by blast
  from h e s t show ?thesis by simp
qed

section \<open>Properties of GitService\<close>

lemma commitsLoop_acc:
  "commitsLoop run hs (fs, ws) =
     (fs @ fst (commitsLoop run hs ([], [])), ws @ snd (commitsLoop run hs ([], [])))"
proof (induction hs arbitrary: fs ws)
  case Nil
  then show ?case by simp
next
  case (Cons h hs)
  show ?case
    by (simp add: Let_def Cons.IH[of "fs @ _"] Cons.IH[of "cfiles _"]
                  Cons.IH[of _ "ws @ _"] Cons.IH[of _ "[_]"])
qed

lemma commitsLoop_Cons:
  "commitsLoop run (h # hs) ([], []) =
     (cfiles (getModifiedFilesFromCommit run h) @ fst (commitsLoop run hs ([], [])),
      (if truthy (warning (getModifiedFilesFromCommit run h))
       then [the (warning (getModifiedFilesFromCommit run h))] else [])
      @ snd (commitsLoop run hs ([], [])))"
  by (simp add: Let_def commitsLoop_acc[of run hs "cfiles _"] commitsLoop_acc[of run hs "[]" "[_]"])

lemma commitsLoop_append:
  "commitsLoop run (hs1 @ hs2) ([], []) =
     (fst (commitsLoop run hs1 ([], [])) @ fst (commitsLoop run hs2 ([], [])),
      snd (commitsLoop run hs1 ([], [])) @ snd (commitsLoop run hs2 ([], [])))"
proof (induction hs1)
  case Nil
  then show ?case by simp
next
  case (Cons h hs1)
  show ?case
    unfolding append_Cons commitsLoop_Cons Cons.IH by simp
qed

lemma rejected_hash:
  "\<not> COMMIT_HASH_REGEX h \<Longrightarrow>
     getModifiedFilesFromCommit run h = \<lparr>cfiles = [], warning = Some (''Invalid commit hash format: '' @ h)\<rparr>"
  by (simp add: getModifiedFilesFromCommit_def)

lemma commitsLoop_skip:
  assumes "cfiles (getModifiedFilesFromCommit run h) = []"
      and "warning (getModifiedFilesFromCommit run h) = Some w" and "w \<noteq> []"
  shows "commitsLoop run (hs1 @ h # hs2) ([], []) =
           (fst (commitsLoop run (hs1 @ hs2) ([], [])),
            snd (commitsLoop run hs1 ([], [])) @ [w] @ snd (commitsLoop run hs2 ([], [])))"
  using assms
  by (simp add: commitsLoop_append[of run hs1 "h # hs2"] commitsLoop_append[of run hs1 hs2]
        commitsLoop_Cons truthy_def del: commitsLoop.simps)

lemma files_eq:
  "files (getModifiedFilesFromCommits run dirs hs) =
     filterFilesToPackages
       (filter (\<lambda>file. length file > 0)
          (setFromList (map normalizePath (fst (commitsLoop run hs ([], [])))) [])) dirs"
  by (simp add: getModifiedFilesFromCommits_def Let_def case_prod_beta)

lemma warnings_eq:
  "warnings (getModifiedFilesFromCommits run dirs hs) =
     snd (commitsLoop run hs ([], [])) @
     (if length (filter (\<lambda>file. length file > 0)
                  (setFromList (map normalizePath (fst (commitsLoop run hs ([], [])))) [])) > 0
         \<and> length (files (getModifiedFilesFromCommits run dirs hs)) = 0 \<and> length dirs > 0
      then [''No files matched the configured packageDirectories.''] else [])"
  by (simp add: getModifiedFilesFromCommits_def Let_def case_prod_beta)

lemma files_of_loop:
  "fst (commitsLoop run hs ([], [])) = fst (commitsLoop run hs' ([], [])) \<Longrightarrow>
     files (getModifiedFilesFromCommits run dirs hs) = files (getModifiedFilesFromCommits run dirs hs')"
  by (simp add: files_eq)

lemma warnings_of_loop:
  "fst (commitsLoop run hs ([], [])) = fst (commitsLoop run hs' ([], [])) \<Longrightarrow>
     \<exists>tl. warnings (getModifiedFilesFromCommits run dirs hs) = snd (commitsLoop run hs ([], [])) @ tl
        \<and> warnings (getModifiedFilesFromCommits run dirs hs') = snd (commitsLoop run hs' ([], [])) @ tl"
  unfolding warnings_eq[of run dirs hs] warnings_eq[of run dirs hs'] files_eq
  by simp

lemma ex_abc: "getModifiedFilesFromCommits exGit [] [''abc1234''] =
    \<lparr>files = [''force-app/classes/A.cls''], warnings = []\<rparr>"
  by code_simp

lemma mergeFiles_Inr:
  "mergeFiles run h = Inr fs \<longleftrightarrow>
     (\<exists>p b out. run [''rev-parse'', h @ ''^2''] = Inr p
        \<and> run [''merge-base'', h @ ''^1'', trim p] = Inr b
        \<and> run [''diff'', ''--name-only'', ''--diff-filter=ACMRT'', trim b, h] = Inr out
        \<and> fs = outputLines out)"
  by (auto simp: mergeFiles_def Let_def split: sum.splits)

lemma mergeFiles_Inl:
  "mergeFiles run h = Inl e \<longleftrightarrow>
     (run [''rev-parse'', h @ ''^2''] = Inl e
      \<or> (\<exists>p. run [''rev-parse'', h @ ''^2''] = Inr p
           \<and> (run [''merge-base'', h @ ''^1'', trim p] = Inl e
              \<or> (\<exists>b. run [''merge-base'', h @ ''^1'', trim p] = Inr b
                   \<and> run [''diff'', ''--name-only'', ''--diff-filter=ACMRT'', trim b, h] = Inl e))))"
  by (auto simp: mergeFiles_def Let_def split: sum.splits)

lemma empty_diff_commit:
  assumes "COMMIT_HASH_REGEX h"
      and "run [''diff-tree'', ''-r'', ''--no-commit-id'', ''--name-only'', ''--diff-filter=ACMRT'', h] = Inr raw"
      and "outputLines raw = []"
  shows "getModifiedFilesFromCommit run h =
           (case mergeFiles run h of
              Inl e \<Rightarrow> \<lparr>cfiles = [], warning = Some (''Could not resolve merge files for '' @ h @ ''.'')\<rparr>
            | Inr mergeOutput \<Rightarrow> \<lparr>cfiles = mergeOutput, warning = None\<rparr>)"
  using assms by (simp add: getModifiedFilesFromCommit_def Let_def)

text \<open>
  Claim C7. A commit identifier that fails the shape check \<open>/^[0-9a-f]{7,40}$/i\<close> yields
  the warning \<open>Invalid commit hash format: ...\<close> and no files; in a batch, the loop carries
  on: the files collected are those of the batch without that identifier, and the warnings
  are those of the other identifiers with the one warning inserted at its place. The
  result of \<open>getModifiedFilesFromCommits\<close> has the same files as the batch without the
  identifier, and its warnings are the same plus that warning.
\<close>

theorem invalid_commit_skipped:
  assumes "\<not> COMMIT_HASH_REGEX h"
  shows "getModifiedFilesFromCommit run h = \<lparr>cfiles = [], warning = Some (''Invalid commit hash format: '' @ h)\<rparr>
   \<and> fst (commitsLoop run (hs1 @ h # hs2) ([], [])) = fst (commitsLoop run (hs1 @ hs2) ([], []))
   \<and> snd (commitsLoop run (hs1 @ h # hs2) ([], [])) =
        snd (commitsLoop run hs1 ([], [])) @ [''Invalid commit hash format: '' @ h] @ snd (commitsLoop run hs2 ([], []))
   \<and> snd (commitsLoop run (hs1 @ hs2) ([], [])) =
        snd (commitsLoop run hs1 ([], [])) @ snd (commitsLoop run hs2 ([], []))
   \<and> files (getModifiedFilesFromCommits run dirs (hs1 @ h # hs2)) =
        files (getModifiedFilesFromCommits run dirs (hs1 @ hs2))
   \<and> set (warnings (getModifiedFilesFromCommits run dirs (hs1 @ h # hs2))) =
        insert (''Invalid commit hash format: '' @ h) (set (warnings (getModifiedFilesFromCommits run dirs (hs1 @ hs2))))"
proof -
  note i = rejected_hash[OF assms, of run]
  have w: "''Invalid commit hash format: '' @ h \<noteq> []" by simp
  have l: "commitsLoop run (hs1 @ h # hs2) ([], []) =
           (fst (commitsLoop run (hs1 @ hs2) ([], [])),
            snd (commitsLoop run hs1 ([], [])) @ [''Invalid commit hash format: '' @ h] @ snd (commitsLoop run hs2 ([], [])))"
    by (rule commitsLoop_skip[OF _ _ w]) (simp_all add: i)
  then have f: "fst (commitsLoop run (hs1 @ h # hs2) ([], [])) = fst (commitsLoop run (hs1 @ hs2) ([], []))"
    by simp
  from warnings_of_loop[OF f, of dirs] obtain tl where
    t: "warnings (getModifiedFilesFromCommits run dirs (hs1 @ h # hs2))
          = snd (commitsLoop run (hs1 @ h # hs2) ([], [])) @ tl"
       "warnings (getModifiedFilesFromCommits run dirs (hs1 @ hs2))
          = snd (commitsLoop run (hs1 @ hs2) ([], [])) @ tl"
    by blast
  have s: "set (warnings (getModifiedFilesFromCommits run dirs (hs1 @ h # hs2))) =
        insert (''Invalid commit hash format: '' @ h) (set (warnings (getModifiedFilesFromCommits run dirs (hs1 @ hs2))))"
    unfolding t l commitsLoop_append[of run hs1 hs2] by auto
  show ?thesis
    using i l s files_of_loop[OF f, of dirs] by (simp add: commitsLoop_append[of run hs1 hs2])
qed

theorem invalid_commit_skipped_witness:
  "\<not> COMMIT_HASH_REGEX ''not-a-hash''
 \<and> getModifiedFilesFromCommit exGit ''not-a-hash'' =
      \<lparr>cfiles = [], warning = Some ''Invalid commit hash format: not-a-hash''\<rparr>
 \<and> files (getModifiedFilesFromCommits exGit [] [''not-a-hash'', ''abc1234'']) =
      [''force-app/classes/A.cls'']
 \<and> set (warnings (getModifiedFilesFromCommits exGit [] [''not-a-hash'', ''abc1234''])) =
      {''Invalid commit hash format: not-a-hash''}"
proof -
  have h: "\<not> COMMIT_HASH_REGEX ''not-a-hash''" by code_simp
  note t = invalid_commit_skipped[OF h, of exGit "[]" "[''abc1234'']" "[]"]
  have 1: "getModifiedFilesFromCommit exGit ''not-a-hash'' =
      \<lparr>cfiles = [], warning = Some ''Invalid commit hash format: not-a-hash''\<rparr>"
    using t[THEN conjunct1] by simp
  have 2: "files (getModifiedFilesFromCommits exGit [] [''not-a-hash'', ''abc1234'']) =
      files (getModifiedFilesFromCommits exGit [] [''abc1234''])"
    using t[THEN conjunct2, THEN conjunct2, THEN conjunct2, THEN conjunct2, THEN conjunct1] by simp
  have 3: "set (warnings (getModifiedFilesFromCommits exGit [] [''not-a-hash'', ''abc1234''])) =
      insert ''Invalid commit hash format: not-a-hash''
        (set (warnings (getModifiedFilesFromCommits exGit [] [''abc1234''])))"
    using t[THEN conjunct2, THEN conjunct2, THEN conjunct2, THEN conjunct2, THEN conjunct2] by simp
  show ?thesis using h 1 2 3 by (simp add: ex_abc)
qed

text \<open>
  Claim C8. For a well-formed identifier whose \<open>diff-tree\<close> output has no lines, the
  changed files are those of \<open>git diff\<close> between the commit and the merge base of its first
  parent (\<open>h^1\<close>) and its second parent (\<open>rev-parse h^2\<close>). When one of the three commands
  of that fallback throws, the commit yields the warning \<open>Could not resolve merge files for
  h.\<close> and no files. Either way the loop carries on with the rest of the batch.
\<close>

theorem merge_commit_fallback:
  assumes "COMMIT_HASH_REGEX h"
      and "run [''diff-tree'', ''-r'', ''--no-commit-id'', ''--name-only'', ''--diff-filter=ACMRT'', h] = Inr raw"
      and "outputLines raw = []"
  shows "(\<forall>p b out.
            run [''rev-parse'', h @ ''^2''] = Inr p
          \<and> run [''merge-base'', h @ ''^1'', trim p] = Inr b
          \<and> run [''diff'', ''--name-only'', ''--diff-filter=ACMRT'', trim b, h] = Inr out
          \<longrightarrow> getModifiedFilesFromCommit run h = \<lparr>cfiles = outputLines out, warning = None\<rparr>
            \<and> fst (commitsLoop run (hs1 @ h # hs2) ([], [])) =
                 fst (commitsLoop run hs1 ([], [])) @ outputLines out @ fst (commitsLoop run hs2 ([], []))
            \<and> snd (commitsLoop run (hs1 @ h # hs2) ([], [])) =
                 snd (commitsLoop run hs1 ([], [])) @ snd (commitsLoop run hs2 ([], [])))
       \<and> (\<forall>e. run [''rev-parse'', h @ ''^2''] = Inl e
              \<or> (\<exists>p. run [''rev-parse'', h @ ''^2''] = Inr p
                   \<and> (run [''merge-base'', h @ ''^1'', trim p] = Inl e
                      \<or> (\<exists>b. run [''merge-base'', h @ ''^1'', trim p] = Inr b
                           \<and> run [''diff'', ''--name-only'', ''--diff-filter=ACMRT'', trim b, h] = Inl e)))
          \<longrightarrow> getModifiedFilesFromCommit run h =
                \<lparr>cfiles = [], warning = Some (''Could not resolve merge files for '' @ h @ ''.'')\<rparr>
            \<and> fst (commitsLoop run (hs1 @ h # hs2) ([], [])) = fst (commitsLoop run (hs1 @ hs2) ([], []))
            \<and> snd (commitsLoop run (hs1 @ h # hs2) ([], [])) =
                 snd (commitsLoop run hs1 ([], []))
                 @ [''Could not resolve merge files for '' @ h @ ''.'']
                 @ snd (commitsLoop run hs2 ([], []))
            \<and> files (getModifiedFilesFromCommits run dirs (hs1 @ h # hs2)) =
                 files (getModifiedFilesFromCommits run dirs (hs1 @ hs2)))"
proof (intro conjI allI impI)
  fix p b out
  assume a: "run [''rev-parse'', h @ ''^2''] = Inr p
          \<and> run [''merge-base'', h @ ''^1'', trim p] = Inr b
          \<and> run [''diff'', ''--name-only'', ''--diff-filter=ACMRT'', trim b, h] = Inr out"
  then have m: "mergeFiles run h = Inr (outputLines out)"
    unfolding mergeFiles_Inr by blast
  show g: "getModifiedFilesFromCommit run h = \<lparr>cfiles = outputLines out, warning = None\<rparr>"
    unfolding empty_diff_commit[where run=run and h=h and raw=raw, OF assms] m by simp
  show "fst (commitsLoop run (hs1 @ h # hs2) ([], [])) =
          fst (commitsLoop run hs1 ([], [])) @ outputLines out @ fst (commitsLoop run hs2 ([], []))"
    unfolding commitsLoop_append[of run hs1 "h # hs2"] commitsLoop_Cons g by simp
  show "snd (commitsLoop run (hs1 @ h # hs2) ([], [])) =
          snd (commitsLoop run hs1 ([], [])) @ snd (commitsLoop run hs2 ([], []))"
    unfolding commitsLoop_append[of run hs1 "h # hs2"] commitsLoop_Cons g by (simp add: truthy_def)
next
  fix e
  assume "run [''rev-parse'', h @ ''^2''] = Inl e
              \<or> (\<exists>p. run [''rev-parse'', h @ ''^2''] = Inr p
                   \<and> (run [''merge-base'', h @ ''^1'', trim p] = Inl e
                      \<or> (\<exists>b. run [''merge-base'', h @ ''^1'', trim p] = Inr b
                           \<and> run [''diff'', ''--name-only'', ''--diff-filter=ACMRT'', trim b, h] = Inl e)))"
  then have m: "mergeFiles run h = Inl e"
    unfolding mergeFiles_Inl .
  show g: "getModifiedFilesFromCommit run h =
                \<lparr>cfiles = [], warning = Some (''Could not resolve merge files for '' @ h @ ''.'')\<rparr>"
    unfolding empty_diff_commit[where run=run and h=h and raw=raw, OF assms] m by simp
  have w: "''Could not resolve merge files for '' @ h @ ''.'' \<noteq> []" by simp
  have l: "commitsLoop run (hs1 @ h # hs2) ([], []) =
           (fst (commitsLoop run (hs1 @ hs2) ([], [])),
            snd (commitsLoop run hs1 ([], [])) @ [''Could not resolve merge files for '' @ h @ ''.'']
              @ snd (commitsLoop run hs2 ([], [])))"
    by (rule commitsLoop_skip[OF _ _ w]) (simp_all add: g)
  then show f: "fst (commitsLoop run (hs1 @ h # hs2) ([], [])) = fst (commitsLoop run (hs1 @ hs2) ([], []))"
    by simp
  from l show "snd (commitsLoop run (hs1 @ h # hs2) ([], [])) =
                 snd (commitsLoop run hs1 ([], []))
                 @ [''Could not resolve merge files for '' @ h @ ''.'']
                 @ snd (commitsLoop run hs2 ([], []))"
    by simp
  from files_of_loop[OF f]
  show "files (getModifiedFilesFromCommits run dirs (hs1 @ h # hs2)) =
                 files (getModifiedFilesFromCommits run dirs (hs1 @ hs2))" .
qed

theorem merge_commit_fallback_witness:
  "COMMIT_HASH_REGEX ''def5678''
 \<and> exGit [''diff-tree'', ''-r'', ''--no-commit-id'', ''--name-only'', ''--diff-filter=ACMRT'', ''def5678''] = Inr []
 \<and> outputLines [] = []
 \<and> getModifiedFilesFromCommit exGit ''def5678'' =
      \<lparr>cfiles = [''force-app/classes/B.cls''], warning = None\<rparr>
 \<and> COMMIT_HASH_REGEX ''fed9999''
 \<and> getModifiedFilesFromCommit exGit ''fed9999'' =
      \<lparr>cfiles = [], warning = Some ''Could not resolve merge files for fed9999.''\<rparr>
 \<and> files (getModifiedFilesFromCommits exGit [] [''fed9999'', ''abc1234'']) =
      [''force-app/classes/A.cls'']"
proof -
  have v1: "COMMIT_HASH_REGEX ''def5678''" by code_simp
  have d1: "exGit [''diff-tree'', ''-r'', ''--no-commit-id'', ''--name-only'', ''--diff-filter=ACMRT'', ''def5678''] = Inr []"
    by (simp add: exGit_def)
  have o: "outputLines [] = []" by code_simp
  have v2: "COMMIT_HASH_REGEX ''fed9999''" by code_simp
  have d2: "exGit [''diff-tree'', ''-r'', ''--no-commit-id'', ''--name-only'', ''--diff-filter=ACMRT'', ''fed9999''] = Inr []"
    by (simp add: exGit_def)
  have ok: "exGit [''rev-parse'', ''def5678'' @ ''^2''] = Inr (''aaa1111'' @ [CHR 0x0A])
          \<and> exGit [''merge-base'', ''def5678'' @ ''^1'', trim (''aaa1111'' @ [CHR 0x0A])] = Inr (''bbb2222'' @ [CHR 0x0A])
          \<and> exGit [''diff'', ''--name-only'', ''--diff-filter=ACMRT'', trim (''bbb2222'' @ [CHR 0x0A]), ''def5678'']
              = Inr (''force-app/classes/B.cls'' @ [CHR 0x0A])"
    by code_simp
  have ko: "exGit [''rev-parse'', ''fed9999'' @ ''^2''] = Inl (Error ''fatal: bad revision'')"
    by code_simp
  have l: "outputLines (''force-app/classes/B.cls'' @ [CHR 0x0A]) = [''force-app/classes/B.cls'']"
    by code_simp
  note t1 = merge_commit_fallback[where run=exGit and h="''def5678''" and raw="[]" and ?hs1.0="[]"
              and ?hs2.0="[]" and dirs="[]", OF v1 d1 o, THEN conjunct1, rule_format, OF ok]
  note t2 = merge_commit_fallback[where run=exGit and h="''fed9999''" and raw="[]" and ?hs1.0="[]"
              and ?hs2.0="[''abc1234'']" and dirs="[]", OF v2 d2 o, THEN conjunct2, rule_format,
              OF disjI1, OF ko]
  have 1: "getModifiedFilesFromCommit exGit ''def5678'' =
      \<lparr>cfiles = [''force-app/classes/B.cls''], warning = None\<rparr>"
    using t1[THEN conjunct1] l by simp
  have 2: "getModifiedFilesFromCommit exGit ''fed9999'' =
      \<lparr>cfiles = [], warning = Some ''Could not resolve merge files for fed9999.''\<rparr>"
    using t2[THEN conjunct1] by simp
  have 3: "files (getModifiedFilesFromCommits exGit [] [''fed9999'', ''abc1234'']) =
      files (getModifiedFilesFromCommits exGit [] [''abc1234''])"
    using t2[THEN conjunct2, THEN conjunct2, THEN conjunct2] by simp
  show ?thesis using v1 d1 o v2 1 2 3 by (simp add: ex_abc)
qed

section \<open>Properties of retrieve and deploy\<close>

lemma andThen_Inr:
  "andThen m f = Inr r \<longleftrightarrow> (\<exists>x. m = Inr x \<and> f x = Inr r)"
  by (cases m) (simp_all add: andThen_def)

lemma success_retrieveOutcome:
  "success (retrieveOutcome cs resp) \<longleftrightarrow> rr_success resp \<and> \<not> isCanceled (rr_status resp)"
  by (simp add: retrieveOutcome_def)

lemma success_deployOutcome:
  "success (deployOutcome cs resp) \<longleftrightarrow> dr_success resp \<and> \<not> isCanceled (dr_status resp)"
  by (simp add: deployOutcome_def)

lemma retrieveTry_Inr:
  assumes "retrieveTry t cs p c = Inr r"
  shows "\<exists>componentSet operation response.
           addLoop t [] cs = Inr componentSet
         \<and> rt_retrieve t componentSet = Inr operation
         \<and> ro_pollStatus operation
              (map_option (\<lambda>_. retrieveListener p (int (length cs))) (ro_onUpdate operation))
             = Inr response
         \<and> r = retrieveOutcome cs response"
  using assms unfolding retrieveTry_def Let_def andThen_Inr by blast

lemma deployTry_Inr:
  assumes "deployTry t paths cs p c = Inr r"
  shows "(\<exists>fullComponentSet. dt_fromSource t paths = Inr fullComponentSet
            \<and> collectLoop t fullComponentSet [] cs = Inr []
            \<and> r = \<lparr>success = False, message = ''No local components found to deploy'', details = None\<rparr>)
       \<or> (\<exists>fullComponentSet componentSet operation response.
             dt_fromSource t paths = Inr fullComponentSet
           \<and> collectLoop t fullComponentSet [] cs = Inr componentSet
           \<and> componentSet \<noteq> []
           \<and> dt_deploy t componentSet = Inr operation
           \<and> do_pollStatus operation
                (map_option (\<lambda>_. deployListener p (int (length cs))) (do_onUpdate operation))
               = Inr response
           \<and> r = deployOutcome cs response)"
proof -
  from assms obtain full cset where
    f: "dt_fromSource t paths = Inr full" and c: "collectLoop t full [] cs = Inr cset"
    and rest: "(if length cset = 0
     then Inr \<lparr>success = False, message = ''No local components found to deploy'', details = None\<rparr>
     else
     andThen (dt_deploy t cset) (\<lambda>operation.
     andThen (case c of None \<Rightarrow> Inr () | Some f \<Rightarrow> f (cancelDeploy operation)) (\<lambda>_.
     let total' = int (length cs);
         listener = deployListener p total'
     in
     andThen (case do_onUpdate operation of None \<Rightarrow> Inr () | Some register \<Rightarrow> register listener) (\<lambda>_.
     andThen (do_pollStatus operation (map_option (\<lambda>_. listener) (do_onUpdate operation))) (\<lambda>response.
     andThen (completed p total') (\<lambda>_.
     Inr (deployOutcome cs response))))))) = Inr r"
    unfolding deployTry_def andThen_Inr[of "dt_fromSource t paths"]
      andThen_Inr[of "collectLoop t _ [] cs"] by blast
  show ?thesis
  proof (cases "cset = []")
    case True
    with f c rest show ?thesis by auto
  next
    case False
    with rest have "\<exists>operation response. dt_deploy t cset = Inr operation
           \<and> do_pollStatus operation
                (map_option (\<lambda>_. deployListener p (int (length cs))) (do_onUpdate operation))
               = Inr response
           \<and> r = deployOutcome cs response"
      by (auto simp: Let_def andThen_Inr)
    with f c False show ?thesis by blast
  qed
qed

lemma take_eq_prefix: "take (length pat) s = pat \<longleftrightarrow> (\<exists>post. s = pat @ post)"
proof
  assume "take (length pat) s = pat"
  then have "s = pat @ drop (length pat) s" by (metis append_take_drop_id)
  then show "\<exists>post. s = pat @ post" ..
next
  assume "\<exists>post. s = pat @ post"
  then show "take (length pat) s = pat" by auto
qed

lemma contains_iff: "contains pat s \<longleftrightarrow> (\<exists>pre post. s = pre @ pat @ post)"
proof (induction s)
  case Nil
  then show ?case by auto
next
  case (Cons c cs)
  show ?case
  proof
    assume "contains pat (c # cs)"
    then consider "take (length pat) (c # cs) = pat" | "contains pat cs" by auto
    then show "\<exists>pre post. c # cs = pre @ pat @ post"
    proof cases
      case 1
      then obtain post where "c # cs = pat @ post" unfolding take_eq_prefix by blast
      then have "c # cs = [] @ pat @ post" by simp
      then show ?thesis by blast
    next
      case 2
      with Cons.IH obtain pre post where "cs = pre @ pat @ post" by blast
      then have "c # cs = (c # pre) @ pat @ post" by simp
      then show ?thesis by blast
    qed
  next
    assume "\<exists>pre post. c # cs = pre @ pat @ post"
    then obtain pre post where e: "c # cs = pre @ pat @ post" by blast
    show "contains pat (c # cs)"
    proof (cases pre)
      case Nil
      with e have "take (length pat) (c # cs) = pat" unfolding take_eq_prefix by auto
      then show ?thesis by simp
    next
      case (Cons a pre')
      with e have "cs = pre' @ pat @ post" by simp
      with Cons.IH have "contains pat cs" by blast
      then show ?thesis by simp
    qed
  qed
qed

lemma isCanceled_iff:
  "isCanceled v \<longleftrightarrow>
     (\<exists>s pre post. v = Some s
        \<and> (map toLower s = pre @ ''cancelled'' @ post \<or> map toLower s = pre @ ''canceled'' @ post))"
proof (cases v)
  case None
  then show ?thesis by (simp add: isCanceled_def truthy_def)
next
  case (Some s)
  show ?thesis
  proof (cases "s = []")
    case True
    with Some show ?thesis by (simp add: isCanceled_def truthy_def)
  next
    case False
    with Some show ?thesis
      by (simp add: isCanceled_def truthy_def contains_iff del: contains.simps) blast
  qed
qed

lemma addLoop_append:
  "addLoop t s (xs @ ys) = andThen (addLoop t s xs) (\<lambda>s'. addLoop t s' ys)"
  by (induction xs arbitrary: s) (simp_all add: andThen_def split: sum.splits)

lemma addSources_append:
  "addSources t s (xs @ ys) = andThen (addSources t s xs) (\<lambda>s'. addSources t s' ys)"
  by (induction xs arbitrary: s) (simp_all add: andThen_def split: sum.splits)

lemma collectLoop_append:
  "collectLoop t full s (xs @ ys) = andThen (collectLoop t full s xs) (\<lambda>s'. collectLoop t full s' ys)"
  by (induction xs arbitrary: s) (simp_all add: andThen_def split: sum.splits)

lemma messageText_fun:
  "messageText = (\<lambda>m. case m of Text s \<Rightarrow> s
      | Problem q \<Rightarrow> (case fp_problem q of Some x \<Rightarrow> x | None \<Rightarrow> ''Unknown error''))"
  by (rule ext) (simp add: messageText_def)

lemma describe_fun: "describe = (\<lambda>x. type' x @ '': '' @ fullName x)"
  by (rule ext) (simp add: describe_def)

lemma failureText_fun:
  "failureText = (\<lambda>f. (case cf_fullName f of Some n \<Rightarrow> n | None \<Rightarrow> ''Unknown'') @ '': '' @
     (case cf_problem f of Some x \<Rightarrow> x | None \<Rightarrow> ''Unknown error''))"
  by (rule ext) (simp add: failureText_def)

lemma retrieve_total: "\<exists>r. retrieve t cs p c = Inr r"
  by (simp add: retrieve_def split: sum.splits)

lemma deploy_total: "\<exists>r. deploy d paths cs p c = Inr r"
  by (simp add: deploy_def split: sum.splits)

lemma retrieve_fault:
  "retrieveTry t cs p c = Inl e \<Longrightarrow>
     retrieve t cs p c =
       Inr \<lparr>success = False,
            message = (if isCanceled (case e of Error m \<Rightarrow> Some m | NonError \<Rightarrow> None)
                       then ''Retrieve cancelled''
                       else ''Retrieve error: '' @
                            (case e of Error m \<Rightarrow> m | NonError \<Rightarrow> ''Unknown error'')),
            details = None\<rparr>"
  by (simp add: retrieve_def retrieveCatch_def errorMessage_def)

lemma retrieveDetails_eq:
  "retrieveDetails messages =
     (case messages of
        Many ms \<Rightarrow>
          map (\<lambda>m. case m of Text s \<Rightarrow> s
                    | Problem q \<Rightarrow>
                        (case fp_problem q of Some x \<Rightarrow> x
                         | None \<Rightarrow> ''Unknown error'')) ms
      | One m \<Rightarrow>
          (case m of
             Text s \<Rightarrow> if s = [] then [''Unknown error''] else [s]
           | Problem q \<Rightarrow>
               [case fp_problem q of Some x \<Rightarrow> x
                | None \<Rightarrow> ''Unknown error''])
      | Absent \<Rightarrow> [''Unknown error''])"
  by (simp add: retrieveDetails_def messageText_fun split: OneOrMany.splits Message.splits)

lemma deploy_fault:
  "deployTry d paths cs p c = Inl e \<Longrightarrow>
     deploy d paths cs p c =
       Inr \<lparr>success = False,
            message = (if isCanceled (case e of Error m \<Rightarrow> Some m | NonError \<Rightarrow> None)
                       then ''Deploy cancelled''
                       else ''Deploy error: '' @
                            (case e of Error m \<Rightarrow> m | NonError \<Rightarrow> ''Unknown error'')),
            details = None\<rparr>"
  by (simp add: deploy_def deployCatch_def errorMessage_def)

lemma failureMessages_eq:
  "failureMessages dd =
     (case (case dd of None \<Rightarrow> Absent | Some x \<Rightarrow> componentFailures x) of
        Many fs \<Rightarrow>
          map (\<lambda>f. (case cf_fullName f of Some n \<Rightarrow> n | None \<Rightarrow> ''Unknown'') @ '': '' @
                    (case cf_problem f of Some x \<Rightarrow> x | None \<Rightarrow> ''Unknown error'')) fs
      | One f \<Rightarrow>
          [(case cf_fullName f of Some n \<Rightarrow> n | None \<Rightarrow> ''Unknown'') @ '': '' @
           (case cf_problem f of Some x \<Rightarrow> x | None \<Rightarrow> ''Unknown error'')]
      | Absent \<Rightarrow> [''Unknown error''])"
  by (simp add: failureMessages_def failureText_fun failureText_def split: OneOrMany.splits)

lemma collectLoop_step_fault:
  assumes "cs = pre @ x # post \<and> collectLoop d full [] pre = Inr s
         \<and> (dt_getSourceComponents d full (fullName x, type' x) = Inl e
            \<or> (\<exists>sourceComponents.
                  dt_getSourceComponents d full (fullName x, type' x) = Inr sourceComponents
                \<and> addSources d s sourceComponents = Inl e))"
  shows "collectLoop d full [] cs = Inl e"
  using assms by (auto simp: collectLoop_append andThen_def)

lemma retrieve_success:
  assumes "retrieve t cs p c = Inr r \<and> success r"
  shows "\<exists>componentSet operation response.
              addLoop t [] cs = Inr componentSet
            \<and> rt_retrieve t componentSet = Inr operation
            \<and> ro_pollStatus operation
                 (map_option (\<lambda>_. retrieveListener p (int (length cs))) (ro_onUpdate operation))
                = Inr response
            \<and> rr_success response \<and> \<not> isCanceled (rr_status response)"
proof (cases "retrieveTry t cs p c")
  case (Inl e)
  with assms show ?thesis by (simp add: retrieve_def retrieveCatch_def split: if_splits) auto
next
  case (Inr r')
  with assms have "r' = r" by (simp add: retrieve_def)
  with retrieveTry_Inr[OF Inr] assms show ?thesis
    using success_retrieveOutcome by blast
qed

lemma deploy_success:
  assumes "deploy d paths cs p c = Inr r \<and> success r"
  shows "\<exists>fullComponentSet componentSet operation response.
              dt_fromSource d paths = Inr fullComponentSet
            \<and> collectLoop d fullComponentSet [] cs = Inr componentSet
            \<and> dt_deploy d componentSet = Inr operation
            \<and> do_pollStatus operation
                 (map_option (\<lambda>_. deployListener p (int (length cs))) (do_onUpdate operation))
                = Inr response
            \<and> dr_success response \<and> \<not> isCanceled (dr_status response)"
proof (cases "deployTry d paths cs p c")
  case (Inl e)
  with assms show ?thesis by (simp add: deploy_def deployCatch_def split: if_splits) auto
next
  case (Inr r')
  with assms have "r' = r" by (simp add: deploy_def)
  with deployTry_Inr[OF Inr] assms show ?thesis
    using success_deployOutcome by fastforce
qed

lemma showNat_examples: "showNat 0 = ''0'' \<and> showNat 7 = ''7'' \<and> showNat 12 = ''12'' \<and> showNat 305 = ''305''"
  by code_simp

text \<open>
  Claim C9. Whatever the transport and the callbacks do, \<open>retrieve\<close> and \<open>deploy\<close> resolve
  with a result \<open>{success, message, details?}\<close>; no fault leaves them. A fault thrown by any
  collaborator call of the \<open>try\<close> block (adding a component, looking up or adding its source
  components, starting the operation, the \<open>onCancelable\<close> callback, registering the update
  listener, \<open>pollStatus\<close>, the closing \<open>onProgress\<close> call) gives \<open>success = false\<close> with the
  message \<open>... cancelled\<close> when the fault is an \<open>Error\<close> whose message says cancelled or
  canceled in any letter case, and \<open>... error: <message>\<close> (\<open>Unknown error\<close> for a thrown
  value that is no \<open>Error\<close>) otherwise. When nothing throws, a response whose status says
  cancelled gives \<open>... cancelled\<close>; a response flagged successful gives the success message
  and one detail line per component; any other response gives \<open>... failed\<close> with the
  problems the response reports, or \<open>Unknown error\<close> when it reports none. A deploy that
  finds no local source component gives \<open>No local components found to deploy\<close>. The result
  reports success only for a poll response flagged successful and not cancelled.
\<close>

theorem retrieve_deploy_never_throw:
  "(\<forall>v. isCanceled v \<longleftrightarrow>
      (\<exists>s pre post. v = Some s
         \<and> (map toLower s = pre @ ''cancelled'' @ post
            \<or> map toLower s = pre @ ''canceled'' @ post)))
 \<and> (let n = int (length cs);
       fault = (\<lambda>e. \<lparr>success = False,
                      message = (if isCanceled (case e of Error m \<Rightarrow> Some m | NonError \<Rightarrow> None)
                                 then ''Retrieve cancelled''
                                 else ''Retrieve error: '' @
                                      (case e of Error m \<Rightarrow> m | NonError \<Rightarrow> ''Unknown error'')),
                      details = None\<rparr>);
       listener = retrieveListener p n
   in (\<exists>r. retrieve t cs p c = Inr r)
    \<and> (\<forall>r. retrieve t cs p c = Inr r \<and> success r \<longrightarrow>
          (\<exists>componentSet operation response.
              addLoop t [] cs = Inr componentSet
            \<and> rt_retrieve t componentSet = Inr operation
            \<and> ro_pollStatus operation (map_option (\<lambda>_. listener) (ro_onUpdate operation))
                = Inr response
            \<and> rr_success response \<and> \<not> isCanceled (rr_status response)))
    \<and> (\<forall>s. addLoop t s [] = Inr s)
    \<and> (\<forall>s xs x. addLoop t s (xs @ [x]) =
          (case addLoop t s xs of Inl e \<Rightarrow> Inl e
           | Inr s' \<Rightarrow> rt_add t s' (type' x, fullName x)))
    \<and> (\<forall>pre x post s e.
          cs = pre @ x # post \<and> addLoop t [] pre = Inr s
          \<and> rt_add t s (type' x, fullName x) = Inl e
          \<longrightarrow> retrieve t cs p c = Inr (fault e))
    \<and> (\<forall>componentSet. addLoop t [] cs = Inr componentSet \<longrightarrow>
          (\<forall>e. rt_retrieve t componentSet = Inl e \<longrightarrow> retrieve t cs p c = Inr (fault e))
        \<and> (\<forall>operation. rt_retrieve t componentSet = Inr operation \<longrightarrow>
              (\<forall>e. (case c of None \<Rightarrow> Inr ()
                      | Some f \<Rightarrow> f (case ro_cancel operation of None \<Rightarrow> Inr ()
                                      | Some outcome \<Rightarrow> outcome)) = Inl e
                    \<longrightarrow> retrieve t cs p c = Inr (fault e))
            \<and> ((case c of None \<Rightarrow> Inr ()
                   | Some f \<Rightarrow> f (case ro_cancel operation of None \<Rightarrow> Inr ()
                                   | Some outcome \<Rightarrow> outcome)) = Inr ()
                 \<longrightarrow>
                  (\<forall>e. (case ro_onUpdate operation of None \<Rightarrow> Inr ()
                          | Some register \<Rightarrow> register listener) = Inl e
                        \<longrightarrow> retrieve t cs p c = Inr (fault e))
                \<and> ((case ro_onUpdate operation of None \<Rightarrow> Inr ()
                       | Some register \<Rightarrow> register listener) = Inr ()
                     \<longrightarrow>
                      (\<forall>e. ro_pollStatus operation
                              (map_option (\<lambda>_. listener) (ro_onUpdate operation)) = Inl e
                            \<longrightarrow> retrieve t cs p c = Inr (fault e))
                    \<and> (\<forall>response.
                          ro_pollStatus operation
                            (map_option (\<lambda>_. listener) (ro_onUpdate operation)) = Inr response
                          \<longrightarrow>
                          (\<forall>e. (case p of
                                    Some progress \<Rightarrow>
                                      if n > 0
                                      then progress \<lparr>current = n, total = n,
                                             progressMessage = Some ''Status: Completed''\<rparr>
                                      else Inr ()
                                  | None \<Rightarrow> Inr ()) = Inl e
                                \<longrightarrow> retrieve t cs p c = Inr (fault e))
                        \<and> ((case p of
                                Some progress \<Rightarrow>
                                  if n > 0
                                  then progress \<lparr>current = n, total = n,
                                         progressMessage = Some ''Status: Completed''\<rparr>
                                  else Inr ()
                              | None \<Rightarrow> Inr ()) = Inr ()
                             \<longrightarrow>
                             retrieve t cs p c =
                               Inr (if isCanceled (rr_status response)
                                    then \<lparr>success = False, message = ''Retrieve cancelled'',
                                          details = None\<rparr>
                                    else if rr_success response
                                    then \<lparr>success = True,
                                          message = ''Successfully retrieved '' @ showNat (length cs)
                                                    @ '' component(s)'',
                                          details = Some (map (\<lambda>x. type' x @ '': '' @ fullName x) cs)\<rparr>
                                    else \<lparr>success = False, message = ''Retrieve failed'',
                                          details = Some
                                            (case rr_messages response of
                                               Many ms \<Rightarrow>
                                                 map (\<lambda>m. case m of Text s \<Rightarrow> s
                                                           | Problem q \<Rightarrow>
                                                               (case fp_problem q of Some x \<Rightarrow> x
                                                                | None \<Rightarrow> ''Unknown error'')) ms
                                             | One m \<Rightarrow>
                                                 (case m of
                                                    Text s \<Rightarrow> if s = [] then [''Unknown error''] else [s]
                                                  | Problem q \<Rightarrow>
                                                      [case fp_problem q of Some x \<Rightarrow> x
                                                       | None \<Rightarrow> ''Unknown error''])
                                             | Absent \<Rightarrow> [''Unknown error''])\<rparr>))))))))
 \<and> (let n = int (length cs);
       fault = (\<lambda>e. \<lparr>success = False,
                      message = (if isCanceled (case e of Error m \<Rightarrow> Some m | NonError \<Rightarrow> None)
                                 then ''Deploy cancelled''
                                 else ''Deploy error: '' @
                                      (case e of Error m \<Rightarrow> m | NonError \<Rightarrow> ''Unknown error'')),
                      details = None\<rparr>);
       listener = deployListener p n
   in (\<exists>r. deploy d paths cs p c = Inr r)
    \<and> (\<forall>r. deploy d paths cs p c = Inr r \<and> success r \<longrightarrow>
          (\<exists>fullComponentSet componentSet operation response.
              dt_fromSource d paths = Inr fullComponentSet
            \<and> collectLoop d fullComponentSet [] cs = Inr componentSet
            \<and> dt_deploy d componentSet = Inr operation
            \<and> do_pollStatus operation (map_option (\<lambda>_. listener) (do_onUpdate operation))
                = Inr response
            \<and> dr_success response \<and> \<not> isCanceled (dr_status response)))
    \<and> (\<forall>s. addSources d s [] = Inr s)
    \<and> (\<forall>s ys y. addSources d s (ys @ [y]) =
          (case addSources d s ys of Inl e \<Rightarrow> Inl e | Inr s' \<Rightarrow> dt_add d s' y))
    \<and> (\<forall>full s. collectLoop d full s [] = Inr s)
    \<and> (\<forall>full s xs x. collectLoop d full s (xs @ [x]) =
          (case collectLoop d full s xs of Inl e \<Rightarrow> Inl e
           | Inr s' \<Rightarrow>
               (case dt_getSourceComponents d full (fullName x, type' x) of Inl e \<Rightarrow> Inl e
                | Inr sourceComponents \<Rightarrow> addSources d s' sourceComponents)))
    \<and> (\<forall>e. dt_fromSource d paths = Inl e \<longrightarrow> deploy d paths cs p c = Inr (fault e))
    \<and> (\<forall>fullComponentSet. dt_fromSource d paths = Inr fullComponentSet \<longrightarrow>
          (\<forall>pre x post s e.
              cs = pre @ x # post \<and> collectLoop d fullComponentSet [] pre = Inr s
              \<and> (dt_getSourceComponents d fullComponentSet (fullName x, type' x) = Inl e
                 \<or> (\<exists>sourceComponents.
                       dt_getSourceComponents d fullComponentSet (fullName x, type' x)
                         = Inr sourceComponents
                     \<and> addSources d s sourceComponents = Inl e))
              \<longrightarrow> deploy d paths cs p c = Inr (fault e))
        \<and> (\<forall>componentSet. collectLoop d fullComponentSet [] cs = Inr componentSet \<longrightarrow>
              (componentSet = [] \<longrightarrow>
                 deploy d paths cs p c =
                   Inr \<lparr>success = False, message = ''No local components found to deploy'',
                        details = None\<rparr>)
            \<and> (componentSet \<noteq> [] \<longrightarrow>
                  (\<forall>e. dt_deploy d componentSet = Inl e \<longrightarrow> deploy d paths cs p c = Inr (fault e))
                \<and> (\<forall>operation. dt_deploy d componentSet = Inr operation \<longrightarrow>
                      (\<forall>e. (case c of None \<Rightarrow> Inr ()
                              | Some f \<Rightarrow> f (case do_cancel operation of None \<Rightarrow> Inr ()
                                              | Some outcome \<Rightarrow> outcome)) = Inl e
                            \<longrightarrow> deploy d paths cs p c = Inr (fault e))
                    \<and> ((case c of None \<Rightarrow> Inr ()
                           | Some f \<Rightarrow> f (case do_cancel operation of None \<Rightarrow> Inr ()
                                           | Some outcome \<Rightarrow> outcome)) = Inr ()
                         \<longrightarrow>
                          (\<forall>e. (case do_onUpdate operation of None \<Rightarrow> Inr ()
                                  | Some register \<Rightarrow> register listener) = Inl e
                                \<longrightarrow> deploy d paths cs p c = Inr (fault e))
                        \<and> ((case do_onUpdate operation of None \<Rightarrow> Inr ()
                               | Some register \<Rightarrow> register listener) = Inr ()
                             \<longrightarrow>
                              (\<forall>e. do_pollStatus operation
                                      (map_option (\<lambda>_. listener) (do_onUpdate operation)) = Inl e
                                    \<longrightarrow> deploy d paths cs p c = Inr (fault e))
                            \<and> (\<forall>response.
                                  do_pollStatus operation
                                    (map_option (\<lambda>_. listener) (do_onUpdate operation)) = Inr response
                                  \<longrightarrow>
                                  (\<forall>e. (case p of
                                            Some progress \<Rightarrow>
                                              if n > 0
                                              then progress \<lparr>current = n, total = n,
                                                     progressMessage = Some ''Status: Completed''\<rparr>
                                              else Inr ()
                                          | None \<Rightarrow> Inr ()) = Inl e
                                        \<longrightarrow> deploy d paths cs p c = Inr (fault e))
                                \<and> ((case p of
                                        Some progress \<Rightarrow>
                                          if n > 0
                                          then progress \<lparr>current = n, total = n,
                                                 progressMessage = Some ''Status: Completed''\<rparr>
                                          else Inr ()
                                      | None \<Rightarrow> Inr ()) = Inr ()
                                     \<longrightarrow>
                                     deploy d paths cs p c =
                                       Inr (if isCanceled (dr_status response)
                                            then \<lparr>success = False, message = ''Deploy cancelled'',
                                                  details = None\<rparr>
                                            else if dr_success response
                                            then \<lparr>success = True,
                                                  message = ''Successfully deployed ''
                                                            @ showNat (length cs) @ '' component(s)'',
                                                  details = Some (map (\<lambda>x. type' x @ '': '' @ fullName x) cs)\<rparr>
                                            else \<lparr>success = False, message = ''Deploy failed'',
                                                  details = Some
                                                    (case (case dr_details response of None \<Rightarrow> Absent
                                                           | Some x \<Rightarrow> componentFailures x) of
                                                       Many fs \<Rightarrow>
                                                         map (\<lambda>f. (case cf_fullName f of Some n \<Rightarrow> n
                                                                    | None \<Rightarrow> ''Unknown'') @ '': '' @
                                                                   (case cf_problem f of Some x \<Rightarrow> x
                                                                    | None \<Rightarrow> ''Unknown error'')) fs
                                                     | One f \<Rightarrow>
                                                         [(case cf_fullName f of Some n \<Rightarrow> n
                                                           | None \<Rightarrow> ''Unknown'') @ '': '' @
                                                          (case cf_problem f of Some x \<Rightarrow> x
                                                           | None \<Rightarrow> ''Unknown error'')]
                                                     | Absent \<Rightarrow> [''Unknown error''])\<rparr>))))))))))"
  unfolding Let_def
  apply (intro conjI allI impI)
  subgoal by (rule isCanceled_iff)
  subgoal by (rule retrieve_total)
  subgoal by (rule retrieve_success) simp
  subgoal by simp
  subgoal by (simp add: addLoop_append andThen_def split: sum.splits)
  subgoal
    by (rule retrieve_fault)
       (unfold retrieveTry_def andThen_def cancelRetrieve_def completed_def Let_def,
        simp add: addLoop_append andThen_def)
  subgoal
    by (rule retrieve_fault)
       (unfold retrieveTry_def andThen_def cancelRetrieve_def completed_def Let_def, simp)
  subgoal
    by (rule retrieve_fault)
       (unfold retrieveTry_def andThen_def cancelRetrieve_def completed_def Let_def, simp)
  subgoal
    by (rule retrieve_fault)
       (unfold retrieveTry_def andThen_def cancelRetrieve_def completed_def Let_def, simp)
  subgoal
    by (rule retrieve_fault)
       (unfold retrieveTry_def andThen_def cancelRetrieve_def completed_def Let_def, simp)
  subgoal
    by (rule retrieve_fault)
       (unfold retrieveTry_def andThen_def cancelRetrieve_def completed_def Let_def, simp)
  subgoal
    by (unfold retrieve_def retrieveTry_def andThen_def cancelRetrieve_def completed_def Let_def,
        simp add: retrieveOutcome_def retrieveDetails_eq describe_fun)
  subgoal by (rule deploy_total)
  subgoal by (rule deploy_success) simp
  subgoal by simp
  subgoal by (simp add: addSources_append andThen_def split: sum.splits)
  subgoal by simp
  subgoal by (simp add: collectLoop_append andThen_def split: sum.splits)
  subgoal
    by (rule deploy_fault)
       (unfold deployTry_def andThen_def cancelDeploy_def completed_def Let_def, simp)
  subgoal premises prems
    using prems(1) collectLoop_step_fault[OF prems(2)]
    by (intro deploy_fault)
       (unfold deployTry_def andThen_def cancelDeploy_def completed_def Let_def, simp)
  subgoal
    by (unfold deploy_def deployTry_def andThen_def cancelDeploy_def completed_def Let_def, simp)
  subgoal
    by (rule deploy_fault)
       (unfold deployTry_def andThen_def cancelDeploy_def completed_def Let_def, simp)
  subgoal
    by (rule deploy_fault)
       (unfold deployTry_def andThen_def cancelDeploy_def completed_def Let_def, simp)
  subgoal
    by (rule deploy_fault)
       (unfold deployTry_def andThen_def cancelDeploy_def completed_def Let_def, simp)
  subgoal
    by (rule deploy_fault)
       (unfold deployTry_def andThen_def cancelDeploy_def completed_def Let_def, simp)
  subgoal
    by (rule deploy_fault)
       (unfold deployTry_def andThen_def cancelDeploy_def completed_def Let_def, simp)
  subgoal
    by (unfold deploy_def deployTry_def andThen_def cancelDeploy_def completed_def Let_def,
        simp add: deployOutcome_def failureMessages_eq describe_fun)
  done

theorem retrieve_deploy_never_throw_witness:
  "retrieve exRetrieveTransport [exLocalA] None None =
      Inr \<lparr>success = False, message = ''Retrieve error: socket hang up'', details = None\<rparr>
 \<and> retrieve exRetrieveCanceled [exLocalA] None None =
      Inr \<lparr>success = False, message = ''Retrieve cancelled'', details = None\<rparr>
 \<and> retrieve exRetrieveOk [exLocalA] None None =
      Inr \<lparr>success = True, message = ''Successfully retrieved 1 component(s)'',
           details = Some [''T: A'']\<rparr>
 \<and> deploy exDeployTransport [''force-app''] [exLocalA] None None =
      Inr \<lparr>success = False, message = ''Deploy cancelled'', details = None\<rparr>
 \<and> deploy exDeployFailed [''force-app''] [exLocalA] None None =
      Inr \<lparr>success = False, message = ''Deploy failed'', details = Some [''A: Missing semicolon'']\<rparr>"
proof -
  note r1 = retrieve_deploy_never_throw[where t=exRetrieveTransport and cs="[exLocalA]"
      and p=None and c=None and d=exDeployTransport and paths="[''force-app'']", unfolded Let_def]
  note r2 = retrieve_deploy_never_throw[where t=exRetrieveCanceled and cs="[exLocalA]"
      and p=None and c=None and d=exDeployFailed and paths="[''force-app'']", unfolded Let_def]
  note r3 = retrieve_deploy_never_throw[where t=exRetrieveOk and cs="[exLocalA]"
      and p=None and c=None and d=exDeployFailed and paths="[''force-app'']", unfolded Let_def]
  note final = conjunct2[THEN conjunct2, THEN conjunct2, THEN conjunct2, THEN conjunct2]
  have c1: "\<not> isCanceled (Some ''socket hang up'')" by code_simp
  have c2: "isCanceled (Some ''Request was canceled'')" by code_simp
  have c3: "isCanceled (Some ''Canceled'')" by code_simp
  have c4: "\<not> isCanceled (Some ''Succeeded'')" by code_simp
  have c5: "\<not> isCanceled (Some ''Failed'')" by code_simp
  have n1: "showNat (Suc 0) = ''1''" by code_simp
  have a: "retrieve exRetrieveTransport [exLocalA] None None =
      Inr \<lparr>success = False, message = ''Retrieve error: socket hang up'', details = None\<rparr>"
    using r1[THEN conjunct2, THEN conjunct1, THEN final, rule_format, THEN conjunct1, rule_format,
             where e="Error ''socket hang up''"] c1
    by (simp add: exRetrieveTransport_def exLocalA_def andThen_def)
  have b: "retrieve exRetrieveCanceled [exLocalA] None None =
      Inr \<lparr>success = False, message = ''Retrieve cancelled'', details = None\<rparr>"
    using r2[THEN conjunct2, THEN conjunct1, THEN final, rule_format, THEN conjunct2, rule_format,
             THEN conjunct2, rule_format, THEN conjunct2, rule_format, THEN conjunct2, rule_format,
             THEN conjunct2, rule_format, where operation=exCanceledOperation] c3
    by (simp add: exRetrieveCanceled_def exCanceledOperation_def exLocalA_def andThen_def)
  have c: "retrieve exRetrieveOk [exLocalA] None None =
      Inr \<lparr>success = True, message = ''Successfully retrieved 1 component(s)'',
           details = Some [''T: A'']\<rparr>"
    using r3[THEN conjunct2, THEN conjunct1, THEN final, rule_format, THEN conjunct2, rule_format,
             THEN conjunct2, rule_format, THEN conjunct2, rule_format, THEN conjunct2, rule_format,
             THEN conjunct2, rule_format, where operation=exOperation] c4 n1
    by (simp add: exRetrieveOk_def exOperation_def exLocalA_def andThen_def)
  note dlast = conjunct2[THEN conjunct2, THEN conjunct2, THEN conjunct2, THEN conjunct2,
      THEN conjunct2, THEN conjunct2]
  have d: "deploy exDeployTransport [''force-app''] [exLocalA] None None =
      Inr \<lparr>success = False, message = ''Deploy cancelled'', details = None\<rparr>"
    using r1[THEN conjunct2, THEN conjunct2, THEN dlast, rule_format, THEN conjunct1, rule_format,
             where pre="[]" and x=exLocalA and post="[]" and s="[]"
               and e="Error ''Request was canceled''"] c2
    by (simp add: exDeployTransport_def exLocalA_def andThen_def)
  have e: "deploy exDeployFailed [''force-app''] [exLocalA] None None =
      Inr \<lparr>success = False, message = ''Deploy failed'', details = Some [''A: Missing semicolon'']\<rparr>"
    using r2[THEN conjunct2, THEN conjunct2, THEN dlast, rule_format, THEN conjunct2, rule_format,
             THEN conjunct2, rule_format, THEN conjunct2, rule_format,
             THEN conjunct2, rule_format, THEN conjunct2, rule_format, THEN conjunct2, rule_format,
             THEN conjunct2, rule_format,
             where fullComponentSet="[exSource]" and componentSet="[exSource]"
               and operation=exFailedOperation] c5
    by (simp add: exDeployFailed_def exFailedOperation_def exLocalA_def andThen_def)
  show ?thesis using a b c d e by simp
qed

end
